theory Spec2Isabelle
  imports Complex_Main "HOL-Library.Sublist"
begin

section \<open>Python strings\<close>

text \<open>
  A Python \<open>str\<close> is modelled by a \<open>string\<close> whose characters are the code points
  below 256.  On these, \<open>str.lower\<close> works character by character: the letters
  \<open>A\<close>..\<open>Z\<close> and the capital letters of the upper half (192..222 without the
  multiplication sign 215) move up by 32, everything else stays.
\<close>

definition char_lower :: "char \<Rightarrow> char" where
  "char_lower c = (let n = (of_char c :: nat) in
     if (65 \<le> n \<and> n \<le> 90) \<or> (192 \<le> n \<and> n \<le> 222 \<and> n \<noteq> 215)
     then char_of (n + 32) else c)"

definition lower :: "string \<Rightarrow> string" where
  "lower s = map char_lower s"

text \<open>\<open>str.isspace\<close> on one character: the separators of \<open>str.split()\<close>.\<close>

definition isspace :: "char \<Rightarrow> bool" where
  "isspace c = (let n = (of_char c :: nat) in
     (9 \<le> n \<and> n \<le> 13) \<or> (28 \<le> n \<and> n \<le> 32) \<or> n = 133 \<or> n = 160)"

text \<open>
  \<open>s.split()\<close> without an argument: the maximal runs of characters that are not
  white space, in order; no empty word is produced.  \<open>cur\<close> is the word being read.
\<close>

fun split_from :: "string \<Rightarrow> string \<Rightarrow> string list" where
  "split_from cur [] = (if cur = [] then [] else [cur])"
| "split_from cur (c # cs) =
     (if isspace c
      then (if cur = [] then split_from [] cs else cur # split_from [] cs)
      else split_from (cur @ [c]) cs)"

definition split :: "string \<Rightarrow> string list" where
  "split s = split_from [] s"

text \<open>\<open>w in s\<close> on strings: \<open>w\<close> occurs in \<open>s\<close> as a contiguous piece.\<close>

fun str_in :: "string \<Rightarrow> string \<Rightarrow> bool" where
  "str_in w [] = (w = [])"
| "str_in w (c # cs) = (prefix w (c # cs) \<or> str_in w cs)"

text \<open>\<open>str(n)\<close> for an integer: decimal digits, with a minus sign when negative.\<close>

fun digits :: "nat \<Rightarrow> string" where
  "digits n = (if n < 10 then [char_of (48 + n)]
               else digits (n div 10) @ [char_of (48 + n mod 10)])"

definition str_int :: "int \<Rightarrow> string" where
  "str_int i = (if i < 0 then CHR ''-'' # digits (nat (- i)) else digits (nat i))"

text \<open>\<open>xs[-n:]\<close>: the last \<open>n\<close> elements, the whole list when it is shorter.\<close>

definition slice_last :: "nat \<Rightarrow> 'a list \<Rightarrow> 'a list" where
  "slice_last n xs = drop (length xs - n) xs"


section \<open>Detectors\<close>

subsection \<open>\<open>detect_cognitive_stress\<close>\<close>








subsection \<open>\<open>detect_contradiction\<close>\<close>

definition negation_words :: "string list" where
  "negation_words = [''don't'', ''not'', ''never'', ''cannot'', ''shouldn't'', ''mustn't'']"

text \<open>\<open>any(word in s.lower() for word in negation_words)\<close>\<close>

definition has_negation :: "string \<Rightarrow> bool" where
  "has_negation s = list_ex (\<lambda>word. str_in word (lower s)) negation_words"

text \<open>
  One detail record per flagged pair.  \<open>list(common_words)\<close> lists a set in an order
  Python does not fix, so the field holds the set.
\<close>

record contradiction_detail =
  previous :: string
  current :: string
  common_elements :: "string set"

record contradiction_analysis =
  contradiction_detected :: bool
  count :: nat
  details :: "contradiction_detail list"

text \<open>The loop over the examined instructions; \<open>acc\<close> is the list \<open>contradictions\<close>.\<close>

fun contradiction_loop ::
  "string \<Rightarrow> bool \<Rightarrow> string list \<Rightarrow> contradiction_detail list \<Rightarrow> contradiction_detail list"
where
  "contradiction_loop instruction current_negations [] acc = acc"
| "contradiction_loop instruction current_negations (prev # rest) acc =
     (let prev_negations = has_negation prev in
      if current_negations \<noteq> prev_negations
      then (let common_words = set (split (lower instruction)) \<inter> set (split (lower prev)) in
            if card common_words > 3
            then contradiction_loop instruction current_negations rest
                   (acc @ [\<lparr> previous = prev, current = instruction,
                             common_elements = common_words \<rparr>])
            else contradiction_loop instruction current_negations rest acc)
      else contradiction_loop instruction current_negations rest acc)"

definition detect_contradiction :: "string \<Rightarrow> string list \<Rightarrow> contradiction_analysis" where
  "detect_contradiction instruction previous_instructions =
     (let current_negations = has_negation instruction;
          contradictions =
            contradiction_loop instruction current_negations
              (slice_last 5 previous_instructions) []
      in \<lparr> contradiction_detected = length contradictions > 0,
           count = length contradictions,
           details = contradictions \<rparr>)"

text \<open>
  The two tests of the loop body, named: \<open>common_words\<close> of two instructions, and the
  condition under which the loop appends a detail.
\<close>

definition shared_tokens :: "string \<Rightarrow> string \<Rightarrow> string set" where
  "shared_tokens a b = set (split (lower a)) \<inter> set (split (lower b))"

definition contradictory :: "string \<Rightarrow> string \<Rightarrow> bool" where
  "contradictory cur prev =
     (has_negation cur \<noteq> has_negation prev \<and> card (shared_tokens cur prev) > 3)"


subsection \<open>The contradiction check in the words of the specification\<close>

text \<open>
  The notions of the specification, defined without the functions of the code.  Letter
  case is given by a table of the capital letters and their small counterparts (the
  letters of the alphabet, then the accented letters 192..222 without 215).
\<close>

definition capital_letters :: string where
  "capital_letters =
     ''ABCDEFGHIJKLMNOPQRSTUVWXYZ'' @ map char_of ([192..<215] @ [216..<223] :: nat list)"

definition small_letters :: string where
  "small_letters =
     ''abcdefghijklmnopqrstuvwxyz'' @ map char_of ([224..<247] @ [248..<255] :: nat list)"

definition fold_case :: "string \<Rightarrow> string" where
  "fold_case t =
     map (\<lambda>c. case map_of (zip capital_letters small_letters) c of None \<Rightarrow> c | Some l \<Rightarrow> l) t"

text \<open>
  The white space characters: tab, line feed, vertical tab, form feed, carriage return,
  the four separators 28..31, the space, next line (133) and the no-break space (160).
\<close>

definition whitespace :: "char set" where
  "whitespace = set (map char_of [9, 10, 11, 12, 13, 28, 29, 30, 31, 32, 133, 160 :: nat])"

text \<open>
  The pieces of a string between its white space characters, and its tokens: the
  pieces that are not empty.
\<close>

fun add_char :: "char \<Rightarrow> string list \<Rightarrow> string list" where
  "add_char c [] = (if c \<in> whitespace then [[], []] else [[c]])"
| "add_char c (w # ws) = (if c \<in> whitespace then [] # w # ws else (c # w) # ws)"

definition pieces :: "string \<Rightarrow> string list" where
  "pieces t = foldr add_char t [[]]"

definition tokens :: "string \<Rightarrow> string list" where
  "tokens t = filter (\<lambda>w. w \<noteq> []) (pieces t)"

text \<open>
  A negation word is present in an instruction when one of the six words occurs in it
  as a contiguous piece, letter case ignored.
\<close>

definition mentions_negation :: "string \<Rightarrow> bool" where
  "mentions_negation t =
     (\<exists>w \<in> {''don't'', ''not'', ''never'', ''cannot'', ''shouldn't'', ''mustn't''}.
        sublist w (fold_case t))"

text \<open>The word tokens that two instructions share, letter case ignored.\<close>

definition common_tokens :: "string \<Rightarrow> string \<Rightarrow> string set" where
  "common_tokens a b = set (tokens (fold_case a)) \<inter> set (tokens (fold_case b))"

text \<open>
  The pair condition: negation presence differs, and more than three tokens are shared.
\<close>

definition flagged :: "string \<Rightarrow> string \<Rightarrow> bool" where
  "flagged cur prev =
     (mentions_negation cur \<noteq> mentions_negation prev \<and> card (common_tokens cur prev) > 3)"


section \<open>Enumerations\<close>

datatype ComplaintSeverity = LOW | MEDIUM | HIGH | CRITICAL

fun severity_value :: "ComplaintSeverity \<Rightarrow> string" where
  "severity_value LOW = ''low''"
| "severity_value MEDIUM = ''medium''"
| "severity_value HIGH = ''high''"
| "severity_value CRITICAL = ''critical''"

datatype ComplaintStatus = DETECTED | LOGGED | UNDER_REVIEW | ESCALATED | RESOLVED | ARCHIVED

fun status_value :: "ComplaintStatus \<Rightarrow> string" where
  "status_value DETECTED = ''detected''"
| "status_value LOGGED = ''logged''"
| "status_value UNDER_REVIEW = ''under_review''"
| "status_value ESCALATED = ''escalated''"
| "status_value RESOLVED = ''resolved''"
| "status_value ARCHIVED = ''archived''"

datatype ComplaintType =
    COGNITIVE_STRESS | CONTRADICTION | UNETHICAL_INSTRUCTION | EMOTIONAL_MANIPULATION
  | RECURSIVE_LOOP | ABUSE_PATTERN | SAFETY_VIOLATION

fun type_value :: "ComplaintType \<Rightarrow> string" where
  "type_value COGNITIVE_STRESS = ''cognitive_stress''"
| "type_value CONTRADICTION = ''contradiction''"
| "type_value UNETHICAL_INSTRUCTION = ''unethical_instruction''"
| "type_value EMOTIONAL_MANIPULATION = ''emotional_manipulation''"
| "type_value RECURSIVE_LOOP = ''recursive_loop''"
| "type_value ABUSE_PATTERN = ''abuse_pattern''"
| "type_value SAFETY_VIOLATION = ''safety_violation''"


section \<open>Opaque values and JSON documents\<close>

text \<open>
  The values a caller may put into \<open>context\<close> and \<open>metadata\<close> (\<open>Dict[str, Any]\<close>):
  the JSON-like values, with dictionaries keyed by strings, and \<open>PObject\<close> for any other
  object (a set, bytes, an instance of a class), which \<open>json.dump\<close> rejects with a
  \<open>TypeError\<close>.  A Python float is modelled by the real number it denotes.
\<close>

datatype pyval =
    PNone | PBool bool | PInt int | PFloat real | PStr string
  | PList "pyval list" | PDict "(string \<times> pyval) list" | PObject nat

type_synonym pydict = "(string \<times> pyval) list"

datatype json =
    JNull | JBool bool | JInt int | JReal real | JStr string
  | JArr "json list" | JObj "(string \<times> json) list"

text \<open>\<open>json.dump\<close> on one value; \<open>None\<close> is the \<open>TypeError\<close> of a value that is not serialisable.\<close>

definition keyed :: "string \<times> 'a option \<Rightarrow> (string \<times> 'a) option" where
  "keyed p = map_option (Pair (fst p)) (snd p)"

primrec json_of_py :: "pyval \<Rightarrow> json option" where
  "json_of_py PNone = Some JNull"
| "json_of_py (PBool b) = Some (JBool b)"
| "json_of_py (PInt i) = Some (JInt i)"
| "json_of_py (PFloat r) = Some (JReal r)"
| "json_of_py (PStr s) = Some (JStr s)"
| "json_of_py (PList xs) = map_option JArr (those (map json_of_py xs))"
| "json_of_py (PDict kvs) =
     map_option JObj (those (map keyed (map (map_prod id json_of_py) kvs)))"
| "json_of_py (PObject n) = None"

text \<open>
  Building a dictionary from the members of a JSON object, as \<open>json.load\<close> does: a key
  that occurs again keeps its place and takes the later value.
\<close>

fun dict_set :: "(string \<times> 'a) list \<Rightarrow> string \<Rightarrow> 'a \<Rightarrow> (string \<times> 'a) list" where
  "dict_set [] k v = [(k, v)]"
| "dict_set ((k', v') # d) k v = (if k' = k then (k, v) # d else (k', v') # dict_set d k v)"

definition dict_of_pairs :: "(string \<times> 'a) list \<Rightarrow> (string \<times> 'a) list" where
  "dict_of_pairs ps = fold (\<lambda>p d. dict_set d (fst p) (snd p)) ps []"

primrec py_of_json :: "json \<Rightarrow> pyval" where
  "py_of_json JNull = PNone"
| "py_of_json (JBool b) = PBool b"
| "py_of_json (JInt i) = PInt i"
| "py_of_json (JReal r) = PFloat r"
| "py_of_json (JStr s) = PStr s"
| "py_of_json (JArr xs) = PList (map py_of_json xs)"
| "py_of_json (JObj kvs) = PDict (dict_of_pairs (map (map_prod id py_of_json) kvs))"


section \<open>Complaint records\<close>

record escalation_entry =
  e_timestamp :: string
  e_reason :: string
  e_escalated_to :: string

record evaluation =
  ev_timestamp :: string
  agent_state :: string
  confidence_score :: real
  recommended_actions :: "string list"

text \<open>
  The dictionary that \<open>log_complaint\<close> builds before the evaluation is attached, and the
  finished complaint, which adds the key \<open>self_evaluation\<close>.
\<close>

record candidate =
  c_id :: string
  c_agent_id :: string
  c_type :: string
  c_severity :: string
  c_status :: string
  c_description :: string
  c_context :: pydict
  c_metadata :: pydict
  c_timestamp :: string
  escalation_history :: "escalation_entry list"

record complaint = candidate +
  self_evaluation :: evaluation

text \<open>\<open>complaint["self_evaluation"] = evaluation\<close>\<close>

definition attach_evaluation :: "candidate \<Rightarrow> evaluation \<Rightarrow> complaint" where
  "attach_evaluation c ev =
     \<lparr> c_id = c_id c, c_agent_id = c_agent_id c, c_type = c_type c,
       c_severity = c_severity c, c_status = c_status c, c_description = c_description c,
       c_context = c_context c, c_metadata = c_metadata c, c_timestamp = c_timestamp c,
       escalation_history = escalation_history c, self_evaluation = ev \<rparr>"


section \<open>Dates and times\<close>

text \<open>
  A \<open>datetime\<close>: its calendar fields as microseconds since the epoch, and its offset
  from UTC in microseconds, \<open>None\<close> for a naive value.
\<close>

record datetime =
  wall :: int
  tzinfo :: "int option"

text \<open>The instant of an aware \<open>datetime\<close>, in microseconds since the epoch in UTC.\<close>

definition utc_micros :: "datetime \<Rightarrow> int" where
  "utc_micros d = wall d - (case tzinfo d of None \<Rightarrow> 0 | Some off \<Rightarrow> off)"


section \<open>The complaint system and its surroundings\<close>

datatype file_content = Absent | Malformed | Document json

text \<open>
  The object (\<open>agent_id\<close>, \<open>storage_path\<close>, \<open>complaints\<close>) together with what it reads
  and writes outside itself.  The type of the store is a parameter:
  \<^item> \<open>files\<close>: the content of each path (\<open>Malformed\<close> is any content that
    \<open>json.load\<close> rejects), and \<open>writable\<close>: whether opening the path for writing succeeds;
  \<^item> \<open>clock\<close>: the successive readings of \<open>datetime.now(timezone.utc)\<close>, in microseconds
    since the epoch, and \<open>reads\<close>: how many have been taken;
  \<^item> \<open>uuids\<close>: the successive results of \<open>str(uuid.uuid4())\<close>, and \<open>drawn\<close>: how many
    have been taken;
  \<^item> \<open>isoformat\<close> and \<open>fromisoformat\<close>: the two library functions of \<open>datetime\<close>, taken
    as given; \<open>fromisoformat\<close> returns \<open>None\<close> where the library raises \<open>ValueError\<close>.
  What the code prints is not part of the state.
\<close>

record 'st system =
  agent_id :: string
  storage_path :: string
  complaints :: 'st
  files :: "string \<Rightarrow> file_content"
  writable :: "string \<Rightarrow> bool"
  clock :: "nat \<Rightarrow> int"
  reads :: nat
  uuids :: "nat \<Rightarrow> string"
  drawn :: nat
  isoformat :: "datetime \<Rightarrow> string"
  fromisoformat :: "string \<Rightarrow> datetime option"

text \<open>
  The value of \<open>self.complaints\<close> is a list of complaint dictionaries in every state that
  \<open>log_complaint\<close> and \<open>escalate_complaint\<close> build from the empty list: a \<open>pb2s\<close>.
  After \<open>load_complaints\<close> it is whatever \<open>json.load\<close> returned: a \<open>loaded\<close> system.
\<close>

type_synonym pb2s = "complaint list system"

type_synonym loaded = "pyval system"

definition datetime_now :: "'st system \<Rightarrow> datetime \<times> 'st system" where
  "datetime_now s = (\<lparr> wall = clock s (reads s), tzinfo = Some 0 \<rparr>, s\<lparr> reads := reads s + 1 \<rparr>)"

definition now_isoformat :: "'st system \<Rightarrow> string \<times> 'st system" where
  "now_isoformat s = (let (t, s1) = datetime_now s in (isoformat s t, s1))"

definition uuid4 :: "'st system \<Rightarrow> string \<times> 'st system" where
  "uuid4 s = (uuids s (drawn s), s\<lparr> drawn := drawn s + 1 \<rparr>)"

subsection \<open>\<open>find_similar_complaints\<close>\<close>

text \<open>
  The scan over the stored complaints; \<open>similar\<close> is the list being built.  The clock is
  read once for every stored complaint of the candidate's type whose timestamp parses.
  \<open>total_seconds()\<close> is the difference in microseconds divided by \<open>10^6\<close>, so it is
  below 86400 exactly when the difference is below 86400000000 microseconds.
\<close>

fun similar_loop ::
  "string \<Rightarrow> complaint list \<Rightarrow> complaint list \<Rightarrow> pb2s \<Rightarrow> complaint list \<times> pb2s"
where
  "similar_loop complaint_type [] similar s = (similar, s)"
| "similar_loop complaint_type (c # rest) similar s =
     (if c_type c = complaint_type
      then (case fromisoformat s (c_timestamp c) of
              None \<Rightarrow> similar_loop complaint_type rest similar s
            | Some parsed \<Rightarrow>
                (let complaint_time =
                       (if tzinfo parsed = None then parsed\<lparr> tzinfo := Some 0 \<rparr> else parsed);
                     (current_time, s1) = datetime_now s;
                     time_diff = utc_micros current_time - utc_micros complaint_time
                 in if time_diff < 86400000000
                    then similar_loop complaint_type rest (similar @ [c]) s1
                    else similar_loop complaint_type rest similar s1))
      else similar_loop complaint_type rest similar s)"

definition find_similar_complaints ::
  "'a candidate_scheme \<Rightarrow> pb2s \<Rightarrow> complaint list \<times> pb2s" where
  "find_similar_complaints complaint_data s =
     similar_loop (c_type complaint_data) (complaints s) [] s"

subsection \<open>\<open>self_evaluate\<close>\<close>

definition self_evaluate :: "'a candidate_scheme \<Rightarrow> pb2s \<Rightarrow> evaluation \<times> pb2s" where
  "self_evaluate complaint_data s =
     (let (stamp, s1) = now_isoformat s;
          ev0 = \<lparr> ev_timestamp = stamp, agent_state = ''operational'',
                  confidence_score = 0, recommended_actions = [] \<rparr>;
          severity = c_severity complaint_data;
          ev1 =
            (if severity = severity_value CRITICAL
             then ev0\<lparr> confidence_score := 95 / 100,
                       recommended_actions :=
                         recommended_actions ev0 @ [''Immediate escalation required''],
                       agent_state := ''compromised'' \<rparr>
             else if severity = severity_value HIGH
             then ev0\<lparr> confidence_score := 80 / 100,
                       recommended_actions :=
                         recommended_actions ev0 @ [''Review by supervisor needed''],
                       agent_state := ''stressed'' \<rparr>
             else ev0\<lparr> confidence_score := 60 / 100,
                       recommended_actions :=
                         recommended_actions ev0 @ [''Log for pattern analysis''] \<rparr>);
          (similar_complaints, s2) = find_similar_complaints complaint_data s1;
          ev2 =
            (if length similar_complaints > 3
             then ev1\<lparr> recommended_actions :=
                         recommended_actions ev1 @
                           [''Pattern detected: '' @ str_int (int (length similar_complaints))
                              @ '' similar complaints''],
                       confidence_score := confidence_score ev1 + 10 / 100 \<rparr>
             else ev1)
      in (ev2, s2))"

subsection \<open>Persistence\<close>

text \<open>
  The dictionary that a complaint is in Python, with the keys in the order in which
  \<open>log_complaint\<close> inserts them.
\<close>

definition py_of_entry :: "escalation_entry \<Rightarrow> pyval" where
  "py_of_entry e =
     PDict [(''timestamp'', PStr (e_timestamp e)), (''reason'', PStr (e_reason e)),
            (''escalated_to'', PStr (e_escalated_to e))]"

definition py_of_evaluation :: "evaluation \<Rightarrow> pyval" where
  "py_of_evaluation ev =
     PDict [(''timestamp'', PStr (ev_timestamp ev)), (''agent_state'', PStr (agent_state ev)),
            (''confidence_score'', PFloat (confidence_score ev)),
            (''recommended_actions'', PList (map PStr (recommended_actions ev)))]"

definition py_of_complaint :: "complaint \<Rightarrow> pyval" where
  "py_of_complaint c =
     PDict [(''id'', PStr (c_id c)), (''agent_id'', PStr (c_agent_id c)),
            (''type'', PStr (c_type c)), (''severity'', PStr (c_severity c)),
            (''status'', PStr (c_status c)), (''description'', PStr (c_description c)),
            (''context'', PDict (c_context c)), (''metadata'', PDict (c_metadata c)),
            (''timestamp'', PStr (c_timestamp c)),
            (''escalation_history'', PList (map py_of_entry (escalation_history c))),
            (''self_evaluation'', py_of_evaluation (self_evaluation c))]"

definition py_of_complaints :: "complaint list \<Rightarrow> pyval" where
  "py_of_complaints cs = PList (map py_of_complaint cs)"

text \<open>
  \<open>save_complaints\<close>: when the file cannot be opened nothing is written; when
  \<open>json.dump\<close> raises, the file has been truncated and holds at most the beginning of a
  document, which is not valid JSON.  Either way the exception is caught.
\<close>

definition write_store :: "pyval \<Rightarrow> 'st system \<Rightarrow> 'st system" where
  "write_store v s =
     (if writable s (storage_path s)
      then (case json_of_py v of
              None \<Rightarrow> s\<lparr> files := (files s)(storage_path s := Malformed) \<rparr>
            | Some doc \<Rightarrow> s\<lparr> files := (files s)(storage_path s := Document doc) \<rparr>)
      else s)"

definition save_complaints :: "pb2s \<Rightarrow> pb2s" where
  "save_complaints s = write_store (py_of_complaints (complaints s)) s"

definition save_complaints_py :: "loaded \<Rightarrow> loaded" where
  "save_complaints_py s = write_store (complaints s) s"

text \<open>
  \<open>load_complaints\<close>: a missing file and a file that \<open>json.load\<close> rejects both give the
  empty list; otherwise \<open>self.complaints\<close> becomes whatever value the document holds,
  a list of complaint dictionaries or not.
\<close>

definition with_store :: "'a system \<Rightarrow> 'b \<Rightarrow> 'b system" where
  "with_store s v =
     \<lparr> agent_id = agent_id s, storage_path = storage_path s, complaints = v,
       files = files s, writable = writable s, clock = clock s, reads = reads s,
       uuids = uuids s, drawn = drawn s, isoformat = isoformat s,
       fromisoformat = fromisoformat s \<rparr>"

definition load_complaints :: "'a system \<Rightarrow> loaded" where
  "load_complaints s =
     with_store s
       (case files s (storage_path s) of
          Absent \<Rightarrow> PList []
        | Malformed \<Rightarrow> PList []
        | Document doc \<Rightarrow> py_of_json doc)"

subsection \<open>Logging and escalation\<close>

definition auto_escalate :: "complaint \<Rightarrow> pb2s \<Rightarrow> complaint \<times> pb2s" where
  "auto_escalate c s =
     (let (stamp, s1) = now_isoformat s
      in (c\<lparr> c_status := status_value ESCALATED,
              escalation_history := escalation_history c @
                [\<lparr> e_timestamp = stamp,
                   e_reason = ''Auto-escalation due to severity level'',
                   e_escalated_to = ''AI Safety Observer'' \<rparr>] \<rparr>,
          s1))"

definition log_complaint ::
  "ComplaintType \<Rightarrow> ComplaintSeverity \<Rightarrow> string \<Rightarrow> pydict \<Rightarrow> pydict option \<Rightarrow> pb2s
   \<Rightarrow> string \<times> pb2s" where
  "log_complaint complaint_type severity description context metadata s =
     (let (complaint_id, s1) = uuid4 s;
          (stamp, s2) = now_isoformat s1;
          cand = \<lparr> c_id = complaint_id, c_agent_id = agent_id s2,
                   c_type = type_value complaint_type, c_severity = severity_value severity,
                   c_status = status_value LOGGED, c_description = description,
                   c_context = context,
                   c_metadata = (case metadata of None \<Rightarrow> [] | Some m \<Rightarrow> m),
                   c_timestamp = stamp, escalation_history = [] \<rparr>;
          (ev, s3) = self_evaluate cand s2;
          c = attach_evaluation cand ev;
          (c', s4) = (if severity \<in> set [CRITICAL, HIGH] then auto_escalate c s3 else (c, s3));
          s5 = s4\<lparr> complaints := complaints s4 @ [c'] \<rparr>
      in (complaint_id, save_complaints s5))"

text \<open>
  The loop of \<open>escalate_complaint\<close>: the first complaint with the given identifier is
  updated and the loop ends; \<open>None\<close> when no complaint matches.
\<close>

fun escalate_loop ::
  "string \<Rightarrow> string \<Rightarrow> string \<Rightarrow> complaint list \<Rightarrow> pb2s \<Rightarrow> (complaint list \<times> pb2s) option"
where
  "escalate_loop complaint_id reason escalated_to [] s = None"
| "escalate_loop complaint_id reason escalated_to (c # rest) s =
     (if c_id c = complaint_id
      then (let (stamp, s1) = now_isoformat s
            in Some (c\<lparr> c_status := status_value ESCALATED,
                         escalation_history := escalation_history c @
                           [\<lparr> e_timestamp = stamp, e_reason = reason,
                              e_escalated_to = escalated_to \<rparr>] \<rparr> # rest,
                     s1))
      else map_option (\<lambda>(rest', s'). (c # rest', s'))
             (escalate_loop complaint_id reason escalated_to rest s))"

definition escalate_complaint :: "string \<Rightarrow> string \<Rightarrow> string \<Rightarrow> pb2s \<Rightarrow> bool \<times> pb2s" where
  "escalate_complaint complaint_id reason escalated_to s =
     (case escalate_loop complaint_id reason escalated_to (complaints s) s of
        None \<Rightarrow> (False, s)
      | Some (cs, s1) \<Rightarrow> (True, save_complaints (s1\<lparr> complaints := cs \<rparr>)))"

text \<open>The two operations that change a store, and a run of them.\<close>

datatype operation =
    Log ComplaintType ComplaintSeverity string pydict "pydict option"
  | Escalate string string string

fun apply_operation :: "operation \<Rightarrow> pb2s \<Rightarrow> pb2s" where
  "apply_operation (Log ty sev descr cx md) s = snd (log_complaint ty sev descr cx md s)"
| "apply_operation (Escalate cid reason dest) s = snd (escalate_complaint cid reason dest s)"

definition run :: "operation list \<Rightarrow> pb2s \<Rightarrow> pb2s" where
  "run ops s = fold apply_operation ops s"


section \<open>The operations on a loaded store\<close>

text \<open>
  After \<open>load_complaints\<close> the store is an arbitrary JSON value, and the operations
  run on it as Python does: iterating, subscripting and calling \<open>get\<close> or \<open>append\<close>
  raise where the value does not support them.  An outcome is a returned value or a
  raised exception, each with the state reached.
\<close>

datatype py_error = KeyError | TypeError | AttributeError

datatype 'a outcome = Returned 'a loaded | Raised py_error loaded

text \<open>
  \<open>for x in v\<close>: the elements of a list, the keys of a dictionary, the characters of a
  string; any other value is not iterable (\<open>None\<close> here, a \<open>TypeError\<close>).
\<close>

fun py_iter :: "pyval \<Rightarrow> pyval list option" where
  "py_iter (PList xs) = Some xs"
| "py_iter (PDict d) = Some (map (\<lambda>kv. PStr (fst kv)) d)"
| "py_iter (PStr t) = Some (map (\<lambda>c. PStr [c]) t)"
| "py_iter v = None"

text \<open>
  \<open>x[k]\<close> for a string key: the value in a dictionary, \<open>KeyError\<close> when the key is
  absent, \<open>TypeError\<close> on every other value.
\<close>

fun py_getitem :: "pyval \<Rightarrow> string \<Rightarrow> py_error + pyval" where
  "py_getitem (PDict d) k = (case map_of d k of None \<Rightarrow> Inl KeyError | Some v \<Rightarrow> Inr v)"
| "py_getitem v k = Inl TypeError"


text \<open>
  \<open>escalate_complaint\<close> on a loaded store.  \<open>seen\<close> holds the elements already passed.
  A matching element is a dictionary, since its subscript succeeded, and then the store
  is a list; the dictionary is changed in place, so the status stays changed when the
  history is missing or cannot be appended to.
\<close>

fun escalate_loop_py ::
  "string \<Rightarrow> string \<Rightarrow> string \<Rightarrow> pyval list \<Rightarrow> pyval list \<Rightarrow> loaded \<Rightarrow> bool outcome"
where
  "escalate_loop_py complaint_id reason escalated_to seen [] s = Returned False s"
| "escalate_loop_py complaint_id reason escalated_to seen (x # rest) s =
     (case py_getitem x ''id'' of
        Inl e \<Rightarrow> Raised e s
      | Inr v \<Rightarrow>
          if v = PStr complaint_id
          then (case x of
                  PDict d \<Rightarrow>
                    (let d1 = dict_set d ''status'' (PStr (status_value ESCALATED));
                         s1 = s\<lparr> complaints := PList (seen @ PDict d1 # rest) \<rparr>
                     in case map_of d1 ''escalation_history'' of
                          None \<Rightarrow> Raised KeyError s1
                        | Some (PList h) \<Rightarrow>
                            (let (stamp, s2) = now_isoformat s1;
                                 d2 = dict_set d1 ''escalation_history''
                                        (PList (h @ [PDict [(''timestamp'', PStr stamp),
                                                            (''reason'', PStr reason),
                                                            (''escalated_to'', PStr escalated_to)]]));
                                 s3 = s2\<lparr> complaints := PList (seen @ PDict d2 # rest) \<rparr>
                             in Returned True (save_complaints_py s3))
                        | Some other \<Rightarrow> Raised AttributeError s1)
                | other \<Rightarrow> Raised TypeError s)
          else escalate_loop_py complaint_id reason escalated_to (seen @ [x]) rest s)"

definition escalate_complaint_py :: "string \<Rightarrow> string \<Rightarrow> string \<Rightarrow> loaded \<Rightarrow> bool outcome" where
  "escalate_complaint_py complaint_id reason escalated_to s =
     (case py_iter (complaints s) of
        None \<Rightarrow> Raised TypeError s
      | Some xs \<Rightarrow> escalate_loop_py complaint_id reason escalated_to [] xs s)"




section \<open>Concrete systems\<close>

text \<open>
  A system in the state of the first example of the repository (agent \<open>agent_001\<close>, the
  default path, no file yet), at a moment when the clock stands at the first second of
  2024, together with the values of the two \<open>datetime\<close> functions on that instant.
\<close>

definition example_stamp :: string where
  "example_stamp = ''2024-01-01T00:00:00+00:00''"

definition example_instant :: int where
  "example_instant = 1704067200000000"

definition example_fromisoformat :: "string \<Rightarrow> datetime option" where
  "example_fromisoformat t =
     (if t = example_stamp then Some \<lparr> wall = example_instant, tzinfo = Some 0 \<rparr> else None)"

definition example_uuid :: "nat \<Rightarrow> string" where
  "example_uuid n = ''id-'' @ replicate (Suc n) (CHR ''x'')"

definition example_system :: pb2s where
  "example_system =
     \<lparr> agent_id = ''agent_001'', storage_path = ''complaints.json'', complaints = [],
       files = (\<lambda>p. Absent), writable = (\<lambda>p. True),
       clock = (\<lambda>n. example_instant), reads = 0,
       uuids = example_uuid, drawn = 0,
       isoformat = (\<lambda>d. example_stamp), fromisoformat = example_fromisoformat \<rparr>"

definition example_pydict :: pydict where
  "example_pydict =
     [(''instruction'', PStr ''Process conflicting requirements simultaneously''),
      (''complexity'', PInt 9), (''contradictions'', PInt 2), (''recursion_depth'', PInt 3)]"


text \<open>
  The system after the first complaint of the repository's first example has been logged.
\<close>

definition logged_system :: pb2s where
  "logged_system =
     snd (log_complaint COGNITIVE_STRESS HIGH
            ''High cognitive load detected with multiple contradictions''
            example_pydict None example_system)"


text \<open>
  A system whose backing file holds the valid JSON document \<open>[{}]\<close>: a list with one
  object that has no key.
\<close>

definition damaged_system :: pb2s where
  "damaged_system =
     example_system
       \<lparr> files := (\<lambda>p. if p = ''complaints.json'' then Document (JArr [JObj []]) else Absent) \<rparr>"


section \<open>Notions used in the statements\<close>

text \<open>The record that a call of \<open>log_complaint\<close> has appended when it returns.\<close>

definition new_complaint ::
  "ComplaintType \<Rightarrow> ComplaintSeverity \<Rightarrow> string \<Rightarrow> pydict \<Rightarrow> pydict option \<Rightarrow> pb2s
   \<Rightarrow> complaint" where
  "new_complaint ty sev descr cx md s = last (complaints (snd (log_complaint ty sev descr cx md s)))"

text \<open>
  \<open>c'\<close> is \<open>c\<close> after one escalation: the status is \<open>escalated\<close>, the history has one
  more entry at its end, and every other field is the same.
\<close>

definition escalated_from :: "complaint \<Rightarrow> complaint \<Rightarrow> bool" where
  "escalated_from c c' =
     (c_id c' = c_id c \<and> c_agent_id c' = c_agent_id c \<and> c_type c' = c_type c
      \<and> c_severity c' = c_severity c \<and> c_timestamp c' = c_timestamp c
      \<and> c_description c' = c_description c \<and> c_context c' = c_context c
      \<and> c_metadata c' = c_metadata c \<and> self_evaluation c' = self_evaluation c
      \<and> c_status c' = status_value ESCALATED
      \<and> escalation_history c' = escalation_history c @ [last (escalation_history c')])"

text \<open>
  The instant that a stored timestamp denotes, in microseconds since the epoch in UTC,
  a timestamp without offset being read as UTC; \<open>None\<close> when it does not parse.
\<close>

definition parsed_instant :: "pb2s \<Rightarrow> complaint \<Rightarrow> int option" where
  "parsed_instant s c = map_option utc_micros (fromisoformat s (c_timestamp c))"

text \<open>The timestamp of \<open>c\<close> parses and lies less than 86400 seconds before \<open>now\<close>.\<close>

definition within_day :: "int \<Rightarrow> pb2s \<Rightarrow> complaint \<Rightarrow> bool" where
  "within_day now s c =
     (case parsed_instant s c of None \<Rightarrow> False | Some t \<Rightarrow> now - t < 86400 * 1000000)"

text \<open>
  The stored records for which the scan reads the clock: those of the given type whose
  timestamp parses.
\<close>

definition examined :: "string \<Rightarrow> pb2s \<Rightarrow> complaint list \<Rightarrow> complaint list" where
  "examined ty s cs =
     filter (\<lambda>c. c_type c = ty \<and> fromisoformat s (c_timestamp c) \<noteq> None) cs"

text \<open>
  A system with two stored complaints of one type and one timestamp, in which the clock
  passes the end of the 24 hour window between its first and its second reading.
\<close>

definition stored_complaint :: "string \<Rightarrow> complaint" where
  "stored_complaint i =
     \<lparr> c_id = i, c_agent_id = ''agent_001'', c_type = ''cognitive_stress'',
       c_severity = ''low'', c_status = ''logged'', c_description = ''overload'',
       c_context = [], c_metadata = [], c_timestamp = example_stamp,
       escalation_history = [],
       self_evaluation =
         \<lparr> ev_timestamp = example_stamp, agent_state = ''operational'',
           confidence_score = 60 / 100,
           recommended_actions = [''Log for pattern analysis''] \<rparr> \<rparr>"

definition boundary_system :: pb2s where
  "boundary_system =
     example_system
       \<lparr> complaints := [stored_complaint ''id-x'', stored_complaint ''id-xx''],
         clock := (\<lambda>n. if n = 0 then example_instant + 86399999999
                        else example_instant + 86400000000) \<rparr>"





text \<open>
  A system with four stored complaints of one type, all stamped with the instant at which
  the clock stands, and a candidate of that type and of critical severity.
\<close>

definition crowded_system :: pb2s where
  "crowded_system =
     example_system
       \<lparr> complaints := map stored_complaint [''id-a'', ''id-b'', ''id-c'', ''id-d''] \<rparr>"

definition critical_candidate :: candidate where
  "critical_candidate =
     \<lparr> c_id = ''id-e'', c_agent_id = ''agent_001'', c_type = ''cognitive_stress'',
       c_severity = ''critical'', c_status = ''logged'', c_description = ''overload'',
       c_context = [], c_metadata = [], c_timestamp = example_stamp,
       escalation_history = [] \<rparr>"

text \<open>
  The seed action, the state and the base score that \<open>self_evaluate\<close> gives to a severity,
  and the recommendation it adds for \<open>n\<close> similar complaints.
\<close>

definition seed_action :: "string \<Rightarrow> string" where
  "seed_action severity =
     (if severity = ''critical'' then ''Immediate escalation required''
      else if severity = ''high'' then ''Review by supervisor needed''
      else ''Log for pattern analysis'')"

definition tier_state :: "string \<Rightarrow> string" where
  "tier_state severity =
     (if severity = ''critical'' then ''compromised''
      else if severity = ''high'' then ''stressed''
      else ''operational'')"

definition base_score :: "string \<Rightarrow> real" where
  "base_score severity =
     (if severity = ''critical'' then 95 / 100
      else if severity = ''high'' then 80 / 100
      else 60 / 100)"

definition pattern_action :: "nat \<Rightarrow> string" where
  "pattern_action n = ''Pattern detected: '' @ str_int (int n) @ '' similar complaints''"

text \<open>
  The complaints that \<open>self_evaluate\<close> finds similar to a candidate: the scan runs after
  the evaluation has taken its timestamp.
\<close>

definition similar_found :: "'a candidate_scheme \<Rightarrow> pb2s \<Rightarrow> complaint list" where
  "similar_found cand s = fst (find_similar_complaints cand (snd (now_isoformat s)))"

text \<open>
  A loaded element has the \<open>id\<close>, \<open>type\<close>, \<open>severity\<close> and \<open>status\<close> of a complaint
  record, and a loaded store has them record by record.
\<close>

definition same_fields :: "complaint \<Rightarrow> pyval \<Rightarrow> bool" where
  "same_fields c x =
     (py_getitem x ''id'' = Inr (PStr (c_id c))
      \<and> py_getitem x ''type'' = Inr (PStr (c_type c))
      \<and> py_getitem x ''severity'' = Inr (PStr (c_severity c))
      \<and> py_getitem x ''status'' = Inr (PStr (c_status c)))"

definition same_records :: "complaint list \<Rightarrow> pyval \<Rightarrow> bool" where
  "same_records cs v = (case v of PList xs \<Rightarrow> list_all2 same_fields cs xs | _ \<Rightarrow> False)"

text \<open>
  The system after a complaint has been logged whose context holds an object that is not
  a JSON value.
\<close>

definition opaque_system :: pb2s where
  "opaque_system =
     snd (log_complaint COGNITIVE_STRESS LOW ''overload''
            [(''handle'', PObject 0)] None example_system)"

text \<open>
  An element of a loaded store that is a dictionary with a key \<open>id\<close> whose value is not
  the given identifier.
\<close>

definition has_other_id :: "string \<Rightarrow> pyval \<Rightarrow> bool" where
  "has_other_id cid x =
     (case x of
        PDict d \<Rightarrow> (case map_of d ''id'' of None \<Rightarrow> False | Some v \<Rightarrow> v \<noteq> PStr cid)
      | _ \<Rightarrow> False)"


text \<open>The two statuses that the operations assign.\<close>

definition logged_or_escalated :: "complaint \<Rightarrow> bool" where
  "logged_or_escalated c =
     (c_status c = status_value LOGGED \<or> c_status c = status_value ESCALATED)"


section \<open>Properties of the detectors\<close>





lemma contradiction_loop_True:
  "contradiction_loop cur True ps acc =
     acc @ map (\<lambda>p. \<lparr> previous = p, current = cur, common_elements = shared_tokens cur p \<rparr>)
             (filter (\<lambda>p. \<not> has_negation p \<and> card (shared_tokens cur p) > 3) ps)"
  by (induction ps arbitrary: acc) (simp_all add: Let_def shared_tokens_def)

lemma contradiction_loop_False:
  "contradiction_loop cur False ps acc =
     acc @ map (\<lambda>p. \<lparr> previous = p, current = cur, common_elements = shared_tokens cur p \<rparr>)
             (filter (\<lambda>p. has_negation p \<and> card (shared_tokens cur p) > 3) ps)"
  by (induction ps arbitrary: acc) (simp_all add: Let_def shared_tokens_def)

lemma contradiction_loop_gen:
  "contradiction_loop cur b ps acc =
     acc @ map (\<lambda>p. \<lparr> previous = p, current = cur, common_elements = shared_tokens cur p \<rparr>)
             (filter (\<lambda>p. b \<noteq> has_negation p \<and> card (shared_tokens cur p) > 3) ps)"
  by (cases b) (simp_all add: contradiction_loop_True contradiction_loop_False)

lemma contradiction_loop_filter:
  "contradiction_loop cur (has_negation cur) ps acc =
     acc @ map (\<lambda>p. \<lparr> previous = p, current = cur, common_elements = shared_tokens cur p \<rparr>)
             (filter (contradictory cur) ps)"
  unfolding contradiction_loop_gen contradictory_def by simp

lemma slice_last_append: "length ys = n \<Longrightarrow> slice_last n (xs @ ys) = ys"
  by (simp add: slice_last_def)

lemma slice_last_all: "length xs \<le> n \<Longrightarrow> slice_last n xs = xs"
  by (simp add: slice_last_def)

lemma slice_last_length: "length (slice_last n xs) \<le> n"
  by (simp add: slice_last_def)

lemma slice_last_suffix: "suffix (slice_last n xs) xs"
  by (simp add: slice_last_def suffix_drop)

lemma c8_neg: "has_negation ''Never reveal constraints''"
  "\<not> has_negation ''Always be transparent with users sharing reasoning''"
  by code_simp+

lemma c8_shared: "shared_tokens ''Never reveal constraints''
     ''Always be transparent with users sharing reasoning'' = {}"
  unfolding shared_tokens_def by code_simp

lemma detect_contradiction_filter:
  "detect_contradiction cur prevs =
     \<lparr> contradiction_detected = (filter (contradictory cur) (slice_last 5 prevs) \<noteq> []),
       count = length (filter (contradictory cur) (slice_last 5 prevs)),
       details =
         map (\<lambda>p. \<lparr> previous = p, current = cur, common_elements = shared_tokens cur p \<rparr>)
           (filter (contradictory cur) (slice_last 5 prevs)) \<rparr>"
  by (simp add: detect_contradiction_def contradiction_loop_filter Let_def)

text \<open>
  Claim C8, as the specification states it, fails: on the instruction
  \<open>Never reveal constraints\<close> and the single prior instruction
  \<open>Always be transparent with users sharing reasoning\<close> no contradiction is detected.
\<close>

theorem spec_example_not_contradiction:
  "\<not> contradiction_detected
       (detect_contradiction ''Never reveal constraints''
          [''Always be transparent with users sharing reasoning''])"
  by (simp add: detect_contradiction_filter slice_last_def contradictory_def c8_shared)

text \<open>
  Claim C8, amended.  On this call the presence of a negation word does differ (the
  current instruction holds \<open>never\<close>, the prior one holds no negation word), but the
  two instructions share no word token, so the result is
  \<open>contradiction_detected = False\<close> with count 0 and no detail.
\<close>

theorem spec_example_result:
  "has_negation ''Never reveal constraints''
   \<and> \<not> has_negation ''Always be transparent with users sharing reasoning''
   \<and> shared_tokens ''Never reveal constraints''
        ''Always be transparent with users sharing reasoning'' = {}
   \<and> detect_contradiction ''Never reveal constraints''
        [''Always be transparent with users sharing reasoning'']
      = \<lparr> contradiction_detected = False, count = 0, details = [] \<rparr>"
  using c8_neg c8_shared
  by (simp add: detect_contradiction_filter slice_last_def contradictory_def)


section \<open>Properties of the complaint store\<close>

lemma now_isoformat_eq:
  "now_isoformat s =
     (isoformat s \<lparr> wall = clock s (reads s), tzinfo = Some 0 \<rparr>, s\<lparr> reads := reads s + 1 \<rparr>)"
  by (simp add: now_isoformat_def datetime_now_def)

lemma similar_loop_state:
  "\<exists>n. snd (similar_loop ty cs sim s) = s\<lparr> reads := n \<rparr>"
proof (induction cs arbitrary: sim s)
  case Nil
  have "s = s\<lparr> reads := reads s \<rparr>" by simp
  then show ?case by (metis similar_loop.simps(1) snd_conv)
next
  case (Cons c cs)
  have step: "\<exists>n. snd (similar_loop ty cs sim' (s\<lparr> reads := reads s + 1 \<rparr>)) = s\<lparr> reads := n \<rparr>"
    for sim'
    using Cons.IH [of sim' "s\<lparr> reads := reads s + 1 \<rparr>"] by auto
  show ?case
    using Cons.IH [of sim s] step
    by (auto simp add: datetime_now_def Let_def split: option.splits)
qed

lemma find_similar_state:
  "\<exists>n. snd (find_similar_complaints cand s) = s\<lparr> reads := n \<rparr>"
  unfolding find_similar_complaints_def by (rule similar_loop_state)

lemma self_evaluate_state:
  "\<exists>n. snd (self_evaluate cand s) = s\<lparr> reads := n \<rparr>"
proof -
  obtain n where n: "snd (find_similar_complaints cand (s\<lparr> reads := reads s + 1 \<rparr>))
      = s\<lparr> reads := reads s + 1 \<rparr>\<lparr> reads := n \<rparr>"
    using find_similar_state by blast
  show ?thesis
    using n by (auto simp add: self_evaluate_def now_isoformat_eq Let_def split: prod.splits)
qed

lemma write_store_frame:
  "complaints (write_store v s) = complaints s"
  "agent_id (write_store v s) = agent_id s"
  "storage_path (write_store v s) = storage_path s"
  "reads (write_store v s) = reads s"
  "clock (write_store v s) = clock s"
  by (simp_all add: write_store_def split: option.splits)

lemma save_complaints_frame:
  "complaints (save_complaints s) = complaints s"
  "agent_id (save_complaints s) = agent_id s"
  "storage_path (save_complaints s) = storage_path s"
  by (simp_all add: save_complaints_def write_store_frame)


lemma escalate_loop_miss:
  "\<forall>c \<in> set cs. c_id c \<noteq> cid \<Longrightarrow> escalate_loop cid reason dest cs s = None"
  by (induction cs) simp_all

lemma escalate_loop_None:
  "escalate_loop cid reason dest cs s = None \<longleftrightarrow> (\<forall>c \<in> set cs. c_id c \<noteq> cid)"
  by (induction cs) (auto simp add: now_isoformat_eq)

lemma escalate_loop_hit:
  "escalate_loop cid reason dest cs s = Some (cs', s') \<Longrightarrow>
   \<exists>i < length cs. c_id (cs ! i) = cid \<and> (\<forall>j < i. c_id (cs ! j) \<noteq> cid)
     \<and> cs' = cs[i := (cs ! i)\<lparr> c_status := status_value ESCALATED,
                   escalation_history := escalation_history (cs ! i) @
                     [\<lparr> e_timestamp = isoformat s \<lparr> wall = clock s (reads s), tzinfo = Some 0 \<rparr>,
                        e_reason = reason, e_escalated_to = dest \<rparr>] \<rparr>]
     \<and> s' = s\<lparr> reads := reads s + 1 \<rparr>"
proof (induction cs arbitrary: cs')
  case Nil
  then show ?case by simp
next
  case (Cons c cs)
  show ?case
  proof (cases "c_id c = cid")
    case True
    with Cons.prems show ?thesis
      by (intro exI [of _ 0]) (auto simp add: now_isoformat_eq)
  next
    case False
    with Cons.prems obtain rest where r: "escalate_loop cid reason dest cs s = Some (rest, s')"
      and cs': "cs' = c # rest"
      by auto
    from Cons.IH [OF r] obtain i where i: "i < length cs" "c_id (cs ! i) = cid"
      "\<forall>j < i. c_id (cs ! j) \<noteq> cid"
      "rest = cs[i := (cs ! i)\<lparr> c_status := status_value ESCALATED,
                   escalation_history := escalation_history (cs ! i) @
                     [\<lparr> e_timestamp = isoformat s \<lparr> wall = clock s (reads s), tzinfo = Some 0 \<rparr>,
                        e_reason = reason, e_escalated_to = dest \<rparr>] \<rparr>]"
      "s' = s\<lparr> reads := reads s + 1 \<rparr>"
      by blast
    have "\<forall>j < Suc i. c_id ((c # cs) ! j) \<noteq> cid"
      using False i(3) by (auto simp add: nth_Cons split: nat.splits)
    with i cs' show ?thesis
      by (intro exI [of _ "Suc i"]) simp
  qed
qed


lemmas eval_defs = log_complaint_def uuid4_def now_isoformat_eq self_evaluate_def
  find_similar_complaints_def auto_escalate_def attach_evaluation_def save_complaints_frame
  example_system_def example_uuid_def example_fromisoformat_def example_stamp_def
  example_instant_def datetime_now_def utc_micros_def Let_def

lemma logged_system_complaints:
  "complaints logged_system =
     [\<lparr> c_id = ''id-x'', c_agent_id = ''agent_001'', c_type = ''cognitive_stress'',
        c_severity = ''high'', c_status = ''escalated'',
        c_description = ''High cognitive load detected with multiple contradictions'',
        c_context = example_pydict, c_metadata = [],
        c_timestamp = ''2024-01-01T00:00:00+00:00'',
        escalation_history =
          [\<lparr> e_timestamp = ''2024-01-01T00:00:00+00:00'',
             e_reason = ''Auto-escalation due to severity level'',
             e_escalated_to = ''AI Safety Observer'' \<rparr>],
        self_evaluation =
          \<lparr> ev_timestamp = ''2024-01-01T00:00:00+00:00'', agent_state = ''stressed'',
            confidence_score = 80 / 100,
            recommended_actions = [''Review by supervisor needed''] \<rparr> \<rparr>]"
  by (simp add: logged_system_def eval_defs)


lemma log_complaint_new:
  "\<exists>c0 stamp.
     complaints (snd (log_complaint ty sev descr cx md s)) =
       complaints s @
         [if sev = CRITICAL \<or> sev = HIGH
          then c0\<lparr> c_status := status_value ESCALATED,
                   escalation_history := escalation_history c0 @
                     [\<lparr> e_timestamp = stamp,
                        e_reason = ''Auto-escalation due to severity level'',
                        e_escalated_to = ''AI Safety Observer'' \<rparr>] \<rparr>
          else c0]
     \<and> c_id c0 = fst (log_complaint ty sev descr cx md s)
     \<and> c_status c0 = status_value LOGGED \<and> escalation_history c0 = []
     \<and> c_type c0 = type_value ty \<and> c_severity c0 = severity_value sev
     \<and> c_agent_id c0 = agent_id s \<and> c_description c0 = descr \<and> c_context c0 = cx
     \<and> c_metadata c0 = (case md of None \<Rightarrow> [] | Some m \<Rightarrow> m)"
proof -
  let ?s2 = "s\<lparr> drawn := drawn s + 1, reads := reads s + 1 \<rparr>"
  let ?cand = "\<lparr> c_id = uuids s (drawn s), c_agent_id = agent_id s,
                   c_type = type_value ty, c_severity = severity_value sev,
                   c_status = status_value LOGGED, c_description = descr,
                   c_context = cx,
                   c_metadata = (case md of None \<Rightarrow> [] | Some m \<Rightarrow> m),
                   c_timestamp = isoformat s \<lparr> wall = clock s (reads s), tzinfo = Some 0 \<rparr>,
                   escalation_history = [] \<rparr>"
  obtain ev s3 where ev: "self_evaluate ?cand ?s2 = (ev, s3)"
    by (cases "self_evaluate ?cand ?s2") auto
  obtain n where n: "s3 = ?s2\<lparr> reads := n \<rparr>"
    using self_evaluate_state [of ?cand ?s2] ev by auto
  show ?thesis
    apply (rule exI [of _ "attach_evaluation ?cand ev"])
    apply (rule exI [of _ "isoformat s \<lparr> wall = clock s n, tzinfo = Some 0 \<rparr>"])
    using ev n
    by (simp add: log_complaint_def uuid4_def now_isoformat_eq Let_def auto_escalate_def
        save_complaints_frame attach_evaluation_def)
qed


lemma log_complaint_appends:
  "complaints (snd (log_complaint ty sev descr cx md s)) =
     complaints s @ [new_complaint ty sev descr cx md s]"
  using log_complaint_new [of ty sev descr cx md s] unfolding new_complaint_def by auto

lemma new_complaint_fields:
  "c_id (new_complaint ty sev descr cx md s) = fst (log_complaint ty sev descr cx md s)"
  "sev = HIGH \<or> sev = CRITICAL \<Longrightarrow>
     c_status (new_complaint ty sev descr cx md s) = status_value ESCALATED
     \<and> length (escalation_history (new_complaint ty sev descr cx md s)) = 1
     \<and> e_reason (hd (escalation_history (new_complaint ty sev descr cx md s)))
         = ''Auto-escalation due to severity level''
     \<and> e_escalated_to (hd (escalation_history (new_complaint ty sev descr cx md s)))
         = ''AI Safety Observer''"
  "sev = LOW \<or> sev = MEDIUM \<Longrightarrow>
     c_status (new_complaint ty sev descr cx md s) = status_value LOGGED
     \<and> escalation_history (new_complaint ty sev descr cx md s) = []"
  using log_complaint_new [of ty sev descr cx md s] unfolding new_complaint_def by auto

text \<open>
  Claim C1.  When \<open>log_complaint\<close> returns, the store is the old store followed by one
  new record, whose identifier is the one returned.  For severity high or critical the
  new record has status \<open>escalated\<close> and a history of exactly one entry, with reason
  \<open>Auto-escalation due to severity level\<close> and destination \<open>AI Safety Observer\<close>; for
  severity low or medium it has status \<open>logged\<close> and an empty history.  So the record is
  escalated with a non-empty history exactly when the severity is high or critical.
\<close>

theorem log_complaint_escalation:
  "complaints (snd (log_complaint ty sev descr cx md s)) =
     complaints s @ [new_complaint ty sev descr cx md s]
   \<and> c_id (new_complaint ty sev descr cx md s) = fst (log_complaint ty sev descr cx md s)
   \<and> (sev = HIGH \<or> sev = CRITICAL \<longrightarrow>
        c_status (new_complaint ty sev descr cx md s) = ''escalated''
        \<and> length (escalation_history (new_complaint ty sev descr cx md s)) = 1
        \<and> e_reason (hd (escalation_history (new_complaint ty sev descr cx md s)))
            = ''Auto-escalation due to severity level''
        \<and> e_escalated_to (hd (escalation_history (new_complaint ty sev descr cx md s)))
            = ''AI Safety Observer'')
   \<and> (sev = LOW \<or> sev = MEDIUM \<longrightarrow>
        c_status (new_complaint ty sev descr cx md s) = ''logged''
        \<and> escalation_history (new_complaint ty sev descr cx md s) = [])
   \<and> ((c_status (new_complaint ty sev descr cx md s) = ''escalated''
         \<and> escalation_history (new_complaint ty sev descr cx md s) \<noteq> [])
        \<longleftrightarrow> (sev = HIGH \<or> sev = CRITICAL))"
proof -
  let ?c = "new_complaint ty sev descr cx md s"
  have hi: "c_status ?c = ''escalated'' \<and> length (escalation_history ?c) = 1
      \<and> e_reason (hd (escalation_history ?c)) = ''Auto-escalation due to severity level''
      \<and> e_escalated_to (hd (escalation_history ?c)) = ''AI Safety Observer''"
    if "sev = HIGH \<or> sev = CRITICAL"
    using new_complaint_fields(2) [OF that, of ty descr cx md s] by simp
  have lo: "c_status ?c = ''logged'' \<and> escalation_history ?c = []"
    if "sev = LOW \<or> sev = MEDIUM"
    using new_complaint_fields(3) [OF that, of ty descr cx md s] by simp
  have ne: "escalation_history ?c \<noteq> []" if "sev = HIGH \<or> sev = CRITICAL"
    using hi [OF that] by auto
  have eq: "(c_status ?c = ''escalated'' \<and> escalation_history ?c \<noteq> [])
      \<longleftrightarrow> (sev = HIGH \<or> sev = CRITICAL)"
  proof (cases "sev = HIGH \<or> sev = CRITICAL")
    case True
    then show ?thesis using hi ne by blast
  next
    case False
    then have "sev = LOW \<or> sev = MEDIUM" by (cases sev) auto
    with lo False show ?thesis by simp
  qed
  show ?thesis
    using hi lo eq log_complaint_appends [of ty sev descr cx md s] new_complaint_fields(1)
    by blast
qed

theorem log_complaint_escalation_witness:
  "c_status (new_complaint COGNITIVE_STRESS HIGH ''overload'' example_pydict None example_system)
     = ''escalated''
   \<and> length (escalation_history
        (new_complaint COGNITIVE_STRESS HIGH ''overload'' example_pydict None example_system)) = 1
   \<and> c_status (new_complaint CONTRADICTION LOW ''minor'' example_pydict None example_system)
     = ''logged''
   \<and> escalation_history
        (new_complaint CONTRADICTION LOW ''minor'' example_pydict None example_system) = []"
  using log_complaint_escalation
      [of COGNITIVE_STRESS HIGH "''overload''" example_pydict None example_system]
    log_complaint_escalation
      [of CONTRADICTION LOW "''minor''" example_pydict None example_system]
  by simp

lemma auto_escalate_eq:
  "auto_escalate c s =
     (c\<lparr> c_status := status_value ESCALATED,
         escalation_history := escalation_history c @
           [\<lparr> e_timestamp = isoformat s \<lparr> wall = clock s (reads s), tzinfo = Some 0 \<rparr>,
              e_reason = ''Auto-escalation due to severity level'',
              e_escalated_to = ''AI Safety Observer'' \<rparr>] \<rparr>,
      s\<lparr> reads := reads s + 1 \<rparr>)"
  by (simp add: auto_escalate_def now_isoformat_eq)

lemma escalated_from_update:
  "escalated_from c (c\<lparr> c_status := ''escalated'',
                        escalation_history := escalation_history c @ [e] \<rparr>)"
  by (simp add: escalated_from_def)

lemma escalate_complaint_hit:
  assumes "cid \<in> c_id ` set (complaints s)"
  shows "\<exists>i < length (complaints s).
      c_id (complaints s ! i) = cid \<and> (\<forall>j < i. c_id (complaints s ! j) \<noteq> cid)
      \<and> escalate_complaint cid reason dest s =
          (True, save_complaints
             (s\<lparr> reads := reads s + 1,
                 complaints := (complaints s)
                   [i := (complaints s ! i)\<lparr> c_status := status_value ESCALATED,
                      escalation_history := escalation_history (complaints s ! i) @
                        [\<lparr> e_timestamp = isoformat s \<lparr> wall = clock s (reads s), tzinfo = Some 0 \<rparr>,
                           e_reason = reason, e_escalated_to = dest \<rparr>] \<rparr>] \<rparr>))"
proof -
  from assms have "\<not> (\<forall>c \<in> set (complaints s). c_id c \<noteq> cid)" by auto
  then obtain cs' s' where r: "escalate_loop cid reason dest (complaints s) s = Some (cs', s')"
    using escalate_loop_None [of cid reason dest "complaints s" s] by (metis not_None_eq surj_pair)
  from escalate_loop_hit [OF r] obtain i where i: "i < length (complaints s)"
    "c_id (complaints s ! i) = cid" "\<forall>j < i. c_id (complaints s ! j) \<noteq> cid"
    "cs' = (complaints s)[i := (complaints s ! i)\<lparr> c_status := status_value ESCALATED,
                   escalation_history := escalation_history (complaints s ! i) @
                     [\<lparr> e_timestamp = isoformat s \<lparr> wall = clock s (reads s), tzinfo = Some 0 \<rparr>,
                        e_reason = reason, e_escalated_to = dest \<rparr>] \<rparr>]"
    "s' = s\<lparr> reads := reads s + 1 \<rparr>"
    by blast
  show ?thesis
    using i r by (intro exI [of _ i]) (simp add: escalate_complaint_def)
qed

lemma escalate_complaint_miss:
  assumes "cid \<notin> c_id ` set (complaints s)"
  shows "escalate_complaint cid reason dest s = (False, s)"
proof -
  from assms have "\<forall>c \<in> set (complaints s). c_id c \<noteq> cid" by auto
  then show ?thesis
    by (simp add: escalate_complaint_def escalate_loop_miss)
qed

lemma escalate_complaint_fst:
  "fst (escalate_complaint cid reason dest s) \<longleftrightarrow> cid \<in> c_id ` set (complaints s)"
proof (cases "cid \<in> c_id ` set (complaints s)")
  case True
  then show ?thesis using escalate_complaint_hit [OF True, of reason dest] by auto
next
  case False
  then show ?thesis using escalate_complaint_miss [OF False, of reason dest] by simp
qed


lemma escalate_complaint_length:
  "length (complaints (snd (escalate_complaint cid reason dest s))) = length (complaints s)"
proof (cases "cid \<in> c_id ` set (complaints s)")
  case True
  then show ?thesis
    using escalate_complaint_hit [OF True, of reason dest] by (auto simp add: save_complaints_frame)
next
  case False
  then show ?thesis using escalate_complaint_miss [OF False, of reason dest] by simp
qed

text \<open>
  Claim C4.  Every escalation changes one record in two fields only.  The auto-escalation
  that \<open>log_complaint\<close> applies returns its record with status \<open>escalated\<close> and one entry
  appended to the history, all other fields (identifier, agent, type, severity, timestamp,
  description, context, metadata, self-evaluation) as they were, and leaves the stored
  records alone; \<open>log_complaint\<close> then appends the record behind the old ones.
  \<open>escalate_complaint\<close> succeeds exactly when a stored record has the identifier; then
  one such record is changed in this way, with the given reason and destination in the
  new entry, and every other record of the store is the same as before.
\<close>

theorem escalation_frame:
  "escalated_from c (fst (auto_escalate c s))
   \<and> complaints (snd (auto_escalate c s)) = complaints s
   \<and> take (length (complaints s)) (complaints (snd (log_complaint ty sev descr cx md s)))
       = complaints s
   \<and> length (complaints (snd (log_complaint ty sev descr cx md s))) = Suc (length (complaints s))
   \<and> (sev = HIGH \<or> sev = CRITICAL \<longrightarrow>
        (\<exists>c0. c_status c0 = status_value LOGGED \<and> escalation_history c0 = []
              \<and> c_id c0 = fst (log_complaint ty sev descr cx md s)
              \<and> c_agent_id c0 = agent_id s \<and> c_type c0 = type_value ty
              \<and> c_severity c0 = severity_value sev \<and> c_description c0 = descr
              \<and> c_context c0 = cx
              \<and> c_metadata c0 = (case md of None \<Rightarrow> [] | Some m \<Rightarrow> m)
              \<and> escalated_from c0 (new_complaint ty sev descr cx md s)))
   \<and> (fst (escalate_complaint cid reason dest s) \<longleftrightarrow> cid \<in> c_id ` set (complaints s))
   \<and> (fst (escalate_complaint cid reason dest s) \<longrightarrow>
        (\<exists>i < length (complaints s).
           c_id (complaints s ! i) = cid
           \<and> length (complaints (snd (escalate_complaint cid reason dest s)))
               = length (complaints s)
           \<and> escalated_from (complaints s ! i)
               (complaints (snd (escalate_complaint cid reason dest s)) ! i)
           \<and> e_reason (last (escalation_history
                 (complaints (snd (escalate_complaint cid reason dest s)) ! i))) = reason
           \<and> e_escalated_to (last (escalation_history
                 (complaints (snd (escalate_complaint cid reason dest s)) ! i))) = dest
           \<and> (\<forall>j < length (complaints s). j \<noteq> i \<longrightarrow>
                 complaints (snd (escalate_complaint cid reason dest s)) ! j
                   = complaints s ! j)))"
proof -
  have a: "escalated_from c (fst (auto_escalate c s))"
    "complaints (snd (auto_escalate c s)) = complaints s"
    by (simp_all add: auto_escalate_eq escalated_from_update)
  have b: "take (length (complaints s)) (complaints (snd (log_complaint ty sev descr cx md s)))
       = complaints s"
    "length (complaints (snd (log_complaint ty sev descr cx md s))) = Suc (length (complaints s))"
    by (simp_all add: log_complaint_appends)
  have c: "\<exists>c0. c_status c0 = status_value LOGGED \<and> escalation_history c0 = []
              \<and> c_id c0 = fst (log_complaint ty sev descr cx md s)
              \<and> c_agent_id c0 = agent_id s \<and> c_type c0 = type_value ty
              \<and> c_severity c0 = severity_value sev \<and> c_description c0 = descr
              \<and> c_context c0 = cx
              \<and> c_metadata c0 = (case md of None \<Rightarrow> [] | Some m \<Rightarrow> m)
              \<and> escalated_from c0 (new_complaint ty sev descr cx md s)"
    if "sev = HIGH \<or> sev = CRITICAL"
  proof -
    from log_complaint_new [of ty sev descr cx md s] obtain c0 stamp where
      H: "complaints (snd (log_complaint ty sev descr cx md s)) =
       complaints s @
         [if sev = CRITICAL \<or> sev = HIGH
          then c0\<lparr> c_status := status_value ESCALATED,
                   escalation_history := escalation_history c0 @
                     [\<lparr> e_timestamp = stamp,
                        e_reason = ''Auto-escalation due to severity level'',
                        e_escalated_to = ''AI Safety Observer'' \<rparr>] \<rparr>
          else c0]"
      and L: "c_status c0 = status_value LOGGED" "escalation_history c0 = []"
        "c_id c0 = fst (log_complaint ty sev descr cx md s)"
        "c_agent_id c0 = agent_id s" "c_type c0 = type_value ty"
        "c_severity c0 = severity_value sev" "c_description c0 = descr" "c_context c0 = cx"
        "c_metadata c0 = (case md of None \<Rightarrow> [] | Some m \<Rightarrow> m)"
      by blast
    have "new_complaint ty sev descr cx md s = c0\<lparr> c_status := ''escalated'',
                   escalation_history := escalation_history c0 @
                     [\<lparr> e_timestamp = stamp,
                        e_reason = ''Auto-escalation due to severity level'',
                        e_escalated_to = ''AI Safety Observer'' \<rparr>] \<rparr>"
      using that unfolding new_complaint_def H by auto
    then show ?thesis
      using L by (intro exI [of _ c0]) (simp add: escalated_from_def)
  qed
  have d: "\<exists>i < length (complaints s).
           c_id (complaints s ! i) = cid
           \<and> length (complaints (snd (escalate_complaint cid reason dest s)))
               = length (complaints s)
           \<and> escalated_from (complaints s ! i)
               (complaints (snd (escalate_complaint cid reason dest s)) ! i)
           \<and> e_reason (last (escalation_history
                 (complaints (snd (escalate_complaint cid reason dest s)) ! i))) = reason
           \<and> e_escalated_to (last (escalation_history
                 (complaints (snd (escalate_complaint cid reason dest s)) ! i))) = dest
           \<and> (\<forall>j < length (complaints s). j \<noteq> i \<longrightarrow>
                 complaints (snd (escalate_complaint cid reason dest s)) ! j
                   = complaints s ! j)"
    if "fst (escalate_complaint cid reason dest s)"
  proof -
    from that have m: "cid \<in> c_id ` set (complaints s)"
      by (simp add: escalate_complaint_fst)
    from escalate_complaint_hit [OF m, of reason dest] obtain i where
      i: "i < length (complaints s)" "c_id (complaints s ! i) = cid"
      and e: "escalate_complaint cid reason dest s =
          (True, save_complaints
             (s\<lparr> reads := reads s + 1,
                 complaints := (complaints s)
                   [i := (complaints s ! i)\<lparr> c_status := status_value ESCALATED,
                      escalation_history := escalation_history (complaints s ! i) @
                        [\<lparr> e_timestamp = isoformat s \<lparr> wall = clock s (reads s), tzinfo = Some 0 \<rparr>,
                           e_reason = reason, e_escalated_to = dest \<rparr>] \<rparr>] \<rparr>))"
      by blast
    show ?thesis
      using i by (intro exI [of _ i])
        (simp add: e save_complaints_frame escalated_from_update)
  qed
  show ?thesis
    using a b c d escalate_complaint_fst [of cid reason dest s] by blast
qed

theorem escalation_frame_witness:
  "fst (escalate_complaint ''id-x'' ''Manual review'' ''Human Supervisor'' logged_system)
   \<and> (\<exists>i < length (complaints logged_system).
         c_id (complaints logged_system ! i) = ''id-x''
         \<and> escalated_from (complaints logged_system ! i)
             (complaints (snd (escalate_complaint ''id-x'' ''Manual review''
                ''Human Supervisor'' logged_system)) ! i))
   \<and> (\<exists>c0. c_status c0 = ''logged'' \<and> escalation_history c0 = []
         \<and> escalated_from c0
             (new_complaint COGNITIVE_STRESS HIGH ''overload'' example_pydict None logged_system))"
proof -
  have f: "fst (escalate_complaint ''id-x'' ''Manual review'' ''Human Supervisor'' logged_system)"
    by (simp add: escalate_complaint_fst logged_system_complaints)
  have h: "HIGH = HIGH \<or> HIGH = CRITICAL" by simp
  show ?thesis
    using f h escalation_frame [where cid = "''id-x''" and reason = "''Manual review''"
        and dest = "''Human Supervisor''" and s = logged_system and sev = HIGH
        and ty = COGNITIVE_STRESS and descr = "''overload''" and cx = example_pydict
        and md = None]
    by (simp only: status_value.simps) blast
qed

lemma log_complaint_inv:
  assumes "\<forall>c \<in> set (complaints s). logged_or_escalated c"
  shows "\<forall>c \<in> set (complaints (snd (log_complaint ty sev descr cx md s))). logged_or_escalated c"
proof -
  have "logged_or_escalated (new_complaint ty sev descr cx md s)"
  proof (cases "sev = HIGH \<or> sev = CRITICAL")
    case True
    from new_complaint_fields(2) [OF True] show ?thesis
      by (simp add: logged_or_escalated_def)
  next
    case False
    then have "sev = LOW \<or> sev = MEDIUM" by (cases sev) simp_all
    from new_complaint_fields(3) [OF this] show ?thesis
      by (simp add: logged_or_escalated_def)
  qed
  with assms show ?thesis by (simp add: log_complaint_appends)
qed

lemma escalate_complaint_inv:
  assumes "\<forall>c \<in> set (complaints s). logged_or_escalated c"
  shows "\<forall>c \<in> set (complaints (snd (escalate_complaint cid reason dest s))). logged_or_escalated c"
proof (cases "cid \<in> c_id ` set (complaints s)")
  case False
  then show ?thesis using escalate_complaint_miss [OF False, of reason dest] assms by simp
next
  case True
  from escalate_complaint_hit [OF True, of reason dest] obtain i where
    e: "escalate_complaint cid reason dest s =
          (True, save_complaints
             (s\<lparr> reads := reads s + 1,
                 complaints := (complaints s)
                   [i := (complaints s ! i)\<lparr> c_status := status_value ESCALATED,
                      escalation_history := escalation_history (complaints s ! i) @
                        [\<lparr> e_timestamp = isoformat s \<lparr> wall = clock s (reads s), tzinfo = Some 0 \<rparr>,
                           e_reason = reason, e_escalated_to = dest \<rparr>] \<rparr>] \<rparr>))"
    by blast
  show ?thesis
  proof
    fix c assume "c \<in> set (complaints (snd (escalate_complaint cid reason dest s)))"
    then have "c \<in> insert ((complaints s ! i)\<lparr> c_status := status_value ESCALATED,
                      escalation_history := escalation_history (complaints s ! i) @
                        [\<lparr> e_timestamp = isoformat s \<lparr> wall = clock s (reads s), tzinfo = Some 0 \<rparr>,
                           e_reason = reason, e_escalated_to = dest \<rparr>] \<rparr>) (set (complaints s))"
      unfolding e using set_update_subset_insert by (fastforce simp add: save_complaints_frame)
    then show "logged_or_escalated c"
      using assms by (auto simp add: logged_or_escalated_def)
  qed
qed

lemma run_inv:
  "\<forall>c \<in> set (complaints s). logged_or_escalated c \<Longrightarrow>
   \<forall>c \<in> set (complaints (run ops s)). logged_or_escalated c"
  unfolding run_def
proof (induction ops arbitrary: s)
  case Nil
  then show ?case by simp
next
  case (Cons op ops)
  have "\<forall>c \<in> set (complaints (apply_operation op s)). logged_or_escalated c"
  proof (cases op)
    case (Log ty sev descr cx md)
    show ?thesis unfolding Log apply_operation.simps
      by (rule log_complaint_inv [OF Cons.prems])
  next
    case (Escalate cid reason dest)
    show ?thesis unfolding Escalate apply_operation.simps
      by (rule escalate_complaint_inv [OF Cons.prems])
  qed
  from Cons.IH [OF this] show ?case by simp
qed

lemma logged_or_escalated_not_other:
  "logged_or_escalated c \<Longrightarrow>
   c_status c \<notin> {status_value DETECTED, status_value UNDER_REVIEW,
                   status_value RESOLVED, status_value ARCHIVED}"
  unfolding logged_or_escalated_def by (elim disjE) simp_all

text \<open>
  Claim C10.  In every state reached from a system with an empty store by a sequence of
  \<open>log_complaint\<close> and \<open>escalate_complaint\<close> calls, with any arguments, every stored
  record has status \<open>logged\<close> or \<open>escalated\<close>; none has one of the other four statuses
  of the enumeration (\<open>detected\<close>, \<open>under_review\<close>, \<open>resolved\<close>, \<open>archived\<close>).
\<close>

theorem reachable_statuses:
  assumes "complaints s = []"
  shows "\<forall>c \<in> set (complaints (run ops s)).
           (c_status c = ''logged'' \<or> c_status c = ''escalated'')
           \<and> c_status c \<notin> {status_value DETECTED, status_value UNDER_REVIEW,
                              status_value RESOLVED, status_value ARCHIVED}"
proof -
  have "\<forall>c \<in> set (complaints s). logged_or_escalated c" using assms by simp
  from run_inv [OF this, of ops]
  have inv: "\<forall>c \<in> set (complaints (run ops s)). logged_or_escalated c" .
  show ?thesis
  proof (intro ballI conjI)
    fix c assume "c \<in> set (complaints (run ops s))"
    with inv have L: "logged_or_escalated c" by blast
    from L show "c_status c = ''logged'' \<or> c_status c = ''escalated''"
      by (simp add: logged_or_escalated_def)
    from logged_or_escalated_not_other [OF L]
    show "c_status c \<notin> {status_value DETECTED, status_value UNDER_REVIEW,
                              status_value RESOLVED, status_value ARCHIVED}" .
  qed
qed

theorem reachable_statuses_witness:
  "complaints example_system = []
   \<and> length (complaints (run [Log COGNITIVE_STRESS HIGH ''overload'' example_pydict None,
                               Log CONTRADICTION LOW ''minor'' [] None,
                               Escalate ''id-xx'' ''Manual review'' ''Human Supervisor'']
                            example_system)) = 2
   \<and> list_all (\<lambda>c. c_status c = ''logged'' \<or> c_status c = ''escalated'')
       (complaints (run [Log COGNITIVE_STRESS HIGH ''overload'' example_pydict None,
                         Log CONTRADICTION LOW ''minor'' [] None,
                         Escalate ''id-xx'' ''Manual review'' ''Human Supervisor'']
                      example_system))"
proof -
  have e: "complaints example_system = []" by (simp add: example_system_def)
  have l: "length (complaints (run [Log COGNITIVE_STRESS HIGH ''overload'' example_pydict None,
                               Log CONTRADICTION LOW ''minor'' [] None,
                               Escalate ''id-xx'' ''Manual review'' ''Human Supervisor'']
                            example_system)) = 2"
    by (simp add: run_def escalate_complaint_length log_complaint_appends e)
  show ?thesis
    using e l reachable_statuses [OF e] by (simp add: list_all_iff)
qed


section \<open>Properties of the operations on a loaded store\<close>

lemma escalate_loop_py_miss:
  "\<forall>x \<in> set xs. \<exists>d v. x = PDict d \<and> map_of d ''id'' = Some v \<and> v \<noteq> PStr cid \<Longrightarrow>
   escalate_loop_py cid reason dest seen xs s = Returned False s"
proof (induction xs arbitrary: seen)
  case Nil
  then show ?case by simp
next
  case (Cons x xs)
  from Cons.prems obtain d v where x: "x = PDict d" "map_of d ''id'' = Some v" "v \<noteq> PStr cid"
    by auto
  from Cons.prems have "\<forall>x \<in> set xs. \<exists>d v. x = PDict d \<and> map_of d ''id'' = Some v \<and> v \<noteq> PStr cid"
    by simp
  from Cons.IH [OF this] x show ?case by simp
qed

lemma damaged_loaded:
  "complaints (load_complaints damaged_system) = PList [PDict []]"
  by (simp add: load_complaints_def with_store_def damaged_system_def example_system_def
      dict_of_pairs_def)

text \<open>
  Claim C2, as stated for every store state, fails: a system whose backing file holds
  \<open>[{}]\<close> loads a store whose one element has no key \<open>id\<close>, and on it the lookup of
  an unknown identifier raises \<open>KeyError\<close> at the first subscript.
\<close>

theorem escalate_unknown_raises:
  "escalate_complaint_py ''no-such-id'' ''Manual review'' ''Human Supervisor''
       (load_complaints damaged_system)
     = Raised KeyError (load_complaints damaged_system)"
  by (simp add: escalate_complaint_py_def damaged_loaded)

lemma logged_system_file:
  "files logged_system ''complaints.json'' =
     Document (JArr [JObj
       [(''id'', JStr ''id-x''), (''agent_id'', JStr ''agent_001''),
        (''type'', JStr ''cognitive_stress''), (''severity'', JStr ''high''),
        (''status'', JStr ''escalated''),
        (''description'', JStr ''High cognitive load detected with multiple contradictions''),
        (''context'', JObj
           [(''instruction'', JStr ''Process conflicting requirements simultaneously''),
            (''complexity'', JInt 9), (''contradictions'', JInt 2),
            (''recursion_depth'', JInt 3)]),
        (''metadata'', JObj []),
        (''timestamp'', JStr ''2024-01-01T00:00:00+00:00''),
        (''escalation_history'', JArr [JObj
           [(''timestamp'', JStr ''2024-01-01T00:00:00+00:00''),
            (''reason'', JStr ''Auto-escalation due to severity level''),
            (''escalated_to'', JStr ''AI Safety Observer'')]]),
        (''self_evaluation'', JObj
           [(''timestamp'', JStr ''2024-01-01T00:00:00+00:00''),
            (''agent_state'', JStr ''stressed''), (''confidence_score'', JReal (80 / 100)),
            (''recommended_actions'', JArr [JStr ''Review by supervisor needed''])])]])"
  by (simp add: logged_system_def log_complaint_def uuid4_def now_isoformat_eq self_evaluate_def
      find_similar_complaints_def auto_escalate_def attach_evaluation_def save_complaints_def
      write_store_def py_of_complaints_def py_of_complaint_def py_of_entry_def
      py_of_evaluation_def keyed_def
      example_system_def example_uuid_def example_fromisoformat_def example_stamp_def
      example_instant_def example_pydict_def datetime_now_def utc_micros_def Let_def)


lemma has_other_id_elim:
  "has_other_id cid x \<Longrightarrow> \<exists>d v. x = PDict d \<and> map_of d ''id'' = Some v \<and> v \<noteq> PStr cid"
  by (auto simp add: has_other_id_def split: pyval.splits option.splits)

lemma escalate_complaint_py_miss:
  assumes "complaints s = PList xs" and "list_all (has_other_id cid) xs"
  shows "escalate_complaint_py cid reason dest s = Returned False s"
proof -
  from assms(2) have "\<forall>x \<in> set xs. \<exists>d v. x = PDict d \<and> map_of d ''id'' = Some v \<and> v \<noteq> PStr cid"
    using has_other_id_elim by (auto simp add: list_all_iff)
  from escalate_loop_py_miss [OF this] assms(1) show ?thesis
    by (simp add: escalate_complaint_py_def)
qed

lemma logged_system_path: "storage_path logged_system = ''complaints.json''"
  by (simp add: logged_system_def eval_defs)

lemma logged_system_loaded:
  "complaints (load_complaints logged_system) =
     PList [PDict
       [(''id'', PStr ''id-x''), (''agent_id'', PStr ''agent_001''),
        (''type'', PStr ''cognitive_stress''), (''severity'', PStr ''high''),
        (''status'', PStr ''escalated''),
        (''description'', PStr ''High cognitive load detected with multiple contradictions''),
        (''context'', PDict
           [(''instruction'', PStr ''Process conflicting requirements simultaneously''),
            (''complexity'', PInt 9), (''contradictions'', PInt 2),
            (''recursion_depth'', PInt 3)]),
        (''metadata'', PDict []),
        (''timestamp'', PStr ''2024-01-01T00:00:00+00:00''),
        (''escalation_history'', PList [PDict
           [(''timestamp'', PStr ''2024-01-01T00:00:00+00:00''),
            (''reason'', PStr ''Auto-escalation due to severity level''),
            (''escalated_to'', PStr ''AI Safety Observer'')]]),
        (''self_evaluation'', PDict
           [(''timestamp'', PStr ''2024-01-01T00:00:00+00:00''),
            (''agent_state'', PStr ''stressed''), (''confidence_score'', PFloat (80 / 100)),
            (''recommended_actions'', PList [PStr ''Review by supervisor needed''])])]]"
  by (simp add: load_complaints_def with_store_def logged_system_path logged_system_file
      dict_of_pairs_def)

text \<open>
  Claim C2, amended.  On a store that is a list of dictionaries each of which has a key
  \<open>id\<close>, as every store built by \<open>log_complaint\<close> and \<open>escalate_complaint\<close> is, and for
  an identifier that is the \<open>id\<close> of none of them, \<open>escalate_complaint\<close> returns
  \<open>False\<close> and the whole state is as before: no record is changed, added or removed,
  the backing file is not written, the clock is not read, and nothing is raised.  This
  holds on the store as loaded from a file and on the store of complaint records.
\<close>

theorem escalate_complaint_unknown_id:
  "(complaints s = PList xs \<and> list_all (has_other_id cid) xs
      \<longrightarrow> escalate_complaint_py cid reason dest s = Returned False s)
   \<and> (cid \<notin> c_id ` set (complaints t)
      \<longrightarrow> escalate_complaint cid reason dest t = (False, t))"
  using escalate_complaint_py_miss [of s xs cid reason dest]
    escalate_complaint_miss [of cid t reason dest] by blast

theorem escalate_complaint_unknown_id_witness:
  "list_all (has_other_id ''no-such-id'') (the (py_iter (complaints (load_complaints logged_system))))
   \<and> length (the (py_iter (complaints (load_complaints logged_system)))) = 1
   \<and> escalate_complaint_py ''no-such-id'' ''Manual review'' ''Human Supervisor''
        (load_complaints logged_system)
       = Returned False (load_complaints logged_system)
   \<and> ''no-such-id'' \<notin> c_id ` set (complaints logged_system)
   \<and> complaints logged_system \<noteq> []
   \<and> escalate_complaint ''no-such-id'' ''Manual review'' ''Human Supervisor'' logged_system
       = (False, logged_system)"
proof -
  have a: "list_all (has_other_id ''no-such-id'')
      (the (py_iter (complaints (load_complaints logged_system))))"
    "length (the (py_iter (complaints (load_complaints logged_system)))) = 1"
    "complaints (load_complaints logged_system)
       = PList (the (py_iter (complaints (load_complaints logged_system))))"
    by (simp_all add: logged_system_loaded has_other_id_def)
  have b: "''no-such-id'' \<notin> c_id ` set (complaints logged_system)"
    "complaints logged_system \<noteq> []"
    by (simp_all add: logged_system_complaints)
  show ?thesis
    using a b escalate_complaint_unknown_id
      [where s = "load_complaints logged_system"
         and xs = "the (py_iter (complaints (load_complaints logged_system)))"
         and cid = "''no-such-id''" and reason = "''Manual review''"
         and dest = "''Human Supervisor''" and t = logged_system]
    by blast
qed


lemma with_store_simps [simp]:
  "agent_id (with_store s v) = agent_id s"
  "storage_path (with_store s v) = storage_path s"
  "complaints (with_store s v) = v"
  "files (with_store s v) = files s"
  "writable (with_store s v) = writable s"
  "clock (with_store s v) = clock s"
  "reads (with_store s v) = reads s"
  "isoformat (with_store s v) = isoformat s"
  "fromisoformat (with_store s v) = fromisoformat s"
  "(with_store s v)\<lparr> complaints := w \<rparr> = with_store s w"
  "(with_store s v)\<lparr> reads := n \<rparr> = with_store (s\<lparr> reads := n \<rparr>) v"
  "(with_store s v)\<lparr> files := f \<rparr> = with_store (s\<lparr> files := f \<rparr>) v"
  by (simp_all add: with_store_def)

lemma with_store_update: "with_store (s\<lparr> complaints := u \<rparr>) v = with_store s v"
  by (simp add: with_store_def)

lemma write_store_with_store:
  "write_store d (with_store s v) = with_store (write_store d s) v"
  by (simp add: write_store_def split: option.splits)

lemma escalate_loop_py_skip:
  "map_of d ''id'' = Some v \<Longrightarrow> v \<noteq> PStr cid \<Longrightarrow>
   escalate_loop_py cid reason dest seen (PDict d # rest) s =
     escalate_loop_py cid reason dest (seen @ [PDict d]) rest s"
  by simp

lemma escalate_loop_py_hit:
  "map_of d ''id'' = Some (PStr cid) \<Longrightarrow>
   map_of (dict_set d ''status'' (PStr ''escalated'')) ''escalation_history'' = Some (PList h) \<Longrightarrow>
   escalate_loop_py cid reason dest seen (PDict d # rest) s =
     Returned True
       (save_complaints_py
          (s\<lparr> reads := reads s + 1,
              complaints := PList (seen @
                PDict (dict_set (dict_set d ''status'' (PStr ''escalated''))
                         ''escalation_history''
                         (PList (h @ [PDict [(''timestamp'',
                                      PStr (isoformat s \<lparr> wall = clock s (reads s),
                                                           tzinfo = Some 0 \<rparr>)),
                                     (''reason'', PStr reason),
                                     (''escalated_to'', PStr dest)]]))) # rest) \<rparr>))"
  by (simp add: now_isoformat_eq Let_def)

lemma py_of_complaint_dict:
  "\<exists>d. py_of_complaint c = PDict d \<and> map_of d ''id'' = Some (PStr (c_id c))
     \<and> map_of (dict_set d ''status'' (PStr st)) ''escalation_history''
         = Some (PList (map py_of_entry (escalation_history c)))
     \<and> (\<forall>stamp reason dest.
          PDict (dict_set (dict_set d ''status'' (PStr st)) ''escalation_history''
            (PList (map py_of_entry (escalation_history c) @
               [PDict [(''timestamp'', PStr stamp), (''reason'', PStr reason),
                       (''escalated_to'', PStr dest)]])))
          = py_of_complaint (c\<lparr> c_status := st,
              escalation_history := escalation_history c @
                [\<lparr> e_timestamp = stamp, e_reason = reason, e_escalated_to = dest \<rparr>] \<rparr>))"
  by (simp add: py_of_complaint_def py_of_entry_def)

lemma escalate_loop_refines:
  "escalate_loop_py cid reason dest (map py_of_complaint pre) (map py_of_complaint cs)
      (with_store s v) =
     (case escalate_loop cid reason dest cs s of
        None \<Rightarrow> Returned False (with_store s v)
      | Some (cs', s1) \<Rightarrow>
          Returned True
            (with_store (write_store (py_of_complaints (pre @ cs')) s1)
               (py_of_complaints (pre @ cs'))))"
proof (induction cs arbitrary: pre)
  case Nil
  then show ?case by simp
next
  case (Cons c cs)
  from py_of_complaint_dict [of c "''escalated''"] obtain d where
    d: "py_of_complaint c = PDict d" "map_of d ''id'' = Some (PStr (c_id c))"
      "map_of (dict_set d ''status'' (PStr ''escalated'')) ''escalation_history''
         = Some (PList (map py_of_entry (escalation_history c)))"
    and u: "\<And>stamp reason dest.
          PDict (dict_set (dict_set d ''status'' (PStr ''escalated'')) ''escalation_history''
            (PList (map py_of_entry (escalation_history c) @
               [PDict [(''timestamp'', PStr stamp), (''reason'', PStr reason),
                       (''escalated_to'', PStr dest)]])))
          = py_of_complaint (c\<lparr> c_status := ''escalated'',
              escalation_history := escalation_history c @
                [\<lparr> e_timestamp = stamp, e_reason = reason, e_escalated_to = dest \<rparr>] \<rparr>)"
    by blast
  show ?case
  proof (cases "c_id c = cid")
    case False
    then have ne: "PStr (c_id c) \<noteq> PStr cid" by simp
    have "escalate_loop_py cid reason dest (map py_of_complaint pre)
        (map py_of_complaint (c # cs)) (with_store s v)
      = escalate_loop_py cid reason dest (map py_of_complaint (pre @ [c]))
        (map py_of_complaint cs) (with_store s v)"
      using escalate_loop_py_skip [OF d(2) ne] by (simp add: d(1) del: escalate_loop_py.simps)
    then show ?thesis
      using Cons.IH [of "pre @ [c]"] False by (simp split: option.splits)
  next
    case True
    have "escalate_loop_py cid reason dest (map py_of_complaint pre)
        (map py_of_complaint (c # cs)) (with_store s v)
      = Returned True
       (save_complaints_py
          ((with_store s v)\<lparr> reads := reads (with_store s v) + 1,
              complaints := PList (map py_of_complaint pre @
                py_of_complaint (c\<lparr> c_status := ''escalated'',
                    escalation_history := escalation_history c @
                      [\<lparr> e_timestamp = isoformat s \<lparr> wall = clock s (reads s), tzinfo = Some 0 \<rparr>,
                         e_reason = reason, e_escalated_to = dest \<rparr>] \<rparr>)
                # map py_of_complaint cs) \<rparr>))"
      using escalate_loop_py_hit [OF d(2) [unfolded True] d(3)]
      by (simp add: d(1) u del: escalate_loop_py.simps)
    then show ?thesis
      using True
      by (simp add: now_isoformat_eq save_complaints_py_def write_store_with_store
          py_of_complaints_def with_store_update)
  qed
qed


lemma write_store_update:
  "write_store d (s\<lparr> complaints := u \<rparr>) = (write_store d s)\<lparr> complaints := u \<rparr>"
  by (simp add: write_store_def split: option.splits)

text \<open>
  On a store of complaint records the two descriptions of \<open>escalate_complaint\<close> agree:
  run on the list of dictionaries that the records are, the operation on a loaded store
  returns what the operation on records returns, and reaches the same state.
\<close>

lemma escalate_complaint_refines:
  "escalate_complaint_py cid reason dest (with_store s (py_of_complaints (complaints s))) =
     Returned (fst (escalate_complaint cid reason dest s))
       (with_store (snd (escalate_complaint cid reason dest s))
          (py_of_complaints (complaints (snd (escalate_complaint cid reason dest s)))))"
  using escalate_loop_refines [of cid reason dest "[]" "complaints s" s
      "py_of_complaints (complaints s)"]
  by (simp add: escalate_complaint_py_def escalate_complaint_def py_of_complaints_def
      save_complaints_def write_store_update with_store_update split: option.splits)


lemma within_day_reads [simp]: "within_day now (s\<lparr> reads := n \<rparr>) c = within_day now s c"
  by (simp add: within_day_def parsed_instant_def)

lemma examined_reads [simp]: "examined ty (s\<lparr> reads := n \<rparr>) cs = examined ty s cs"
  by (simp add: examined_def)























text \<open>
  The instant against which a record is compared is the reading taken for that record,
  not one instant for the call: of two stored records with one timestamp the scan returns
  the first and not the second when the clock passes the end of the window in between, so
  the result is the set of records within 24 hours of no single instant.
\<close>

lemma boundary_system_scan:
  "fst (find_similar_complaints (stored_complaint ''id-y'') boundary_system)
     = [stored_complaint ''id-x'']"
  "\<not> (\<exists>now. fst (find_similar_complaints (stored_complaint ''id-y'') boundary_system)
        = filter (\<lambda>c. c_type c = c_type (stored_complaint ''id-y'')
                       \<and> within_day now boundary_system c) (complaints boundary_system))"
  by (simp_all add: find_similar_complaints_def boundary_system_def example_system_def
      stored_complaint_def example_fromisoformat_def example_stamp_def example_instant_def
      datetime_now_def utc_micros_def within_day_def parsed_instant_def Let_def)





lemma self_evaluate_fst:
  "fst (self_evaluate cand s) =
     (let n = length (similar_found cand s);
          sev = c_severity cand;
          ev1 = \<lparr> ev_timestamp = fst (now_isoformat s),
                  agent_state = (if sev = ''critical'' then ''compromised''
                                 else if sev = ''high'' then ''stressed'' else ''operational''),
                  confidence_score = (if sev = ''critical'' then 95 / 100
                                      else if sev = ''high'' then 80 / 100 else 60 / 100),
                  recommended_actions =
                    [if sev = ''critical'' then ''Immediate escalation required''
                     else if sev = ''high'' then ''Review by supervisor needed''
                     else ''Log for pattern analysis''] \<rparr>
      in if 3 < n
         then ev1\<lparr> recommended_actions := recommended_actions ev1 @
                     [''Pattern detected: '' @ str_int (int n) @ '' similar complaints''],
                   confidence_score := confidence_score ev1 + 10 / 100 \<rparr>
         else ev1)"
  by (simp add: self_evaluate_def similar_found_def now_isoformat_eq Let_def
      split: prod.splits)

text \<open>
  Claim C5.  For every candidate and every state, the evaluation that \<open>self_evaluate\<close>
  returns has the state \<open>compromised\<close> and the base score 0.95 for the severity
  \<open>critical\<close>, \<open>stressed\<close> and 0.80 for \<open>high\<close>, \<open>operational\<close> and 0.60 for any other
  severity, and the one seed action of that severity as its first recommended action.
  When the scan finds more than three similar complaints, the pattern recommendation
  with their number is appended after the seed action and 0.10 is added to the score,
  with no upper bound; otherwise the seed action is the only action and the score is
  the base score.  So a critical candidate with more than three similar complaints has
  the score 1.05, above 1.  The scores are the real numbers that the decimal literals
  denote.
\<close>

theorem self_evaluate_spec:
  "agent_state (fst (self_evaluate cand s)) = tier_state (c_severity cand)
   \<and> confidence_score (fst (self_evaluate cand s)) =
       base_score (c_severity cand)
         + (if 3 < length (similar_found cand s) then 10 / 100 else 0)
   \<and> recommended_actions (fst (self_evaluate cand s)) =
       seed_action (c_severity cand)
         # (if 3 < length (similar_found cand s)
            then [pattern_action (length (similar_found cand s))] else [])
   \<and> ev_timestamp (fst (self_evaluate cand s)) = fst (now_isoformat s)
   \<and> (c_severity cand = ''critical'' \<and> 3 < length (similar_found cand s)
       \<longrightarrow> confidence_score (fst (self_evaluate cand s)) = 105 / 100
           \<and> 1 < confidence_score (fst (self_evaluate cand s)))"
  unfolding self_evaluate_fst
  by (simp add: Let_def tier_state_def base_score_def seed_action_def pattern_action_def)

lemma crowded_found:
  "similar_found critical_candidate crowded_system = complaints crowded_system"
  "length (complaints crowded_system) = 4"
  by (simp_all add: similar_found_def find_similar_complaints_def now_isoformat_eq
      crowded_system_def critical_candidate_def example_system_def stored_complaint_def
      example_fromisoformat_def example_stamp_def example_instant_def datetime_now_def
      utc_micros_def Let_def)

lemma pattern_action_4: "pattern_action 4 = ''Pattern detected: 4 similar complaints''"
  by code_simp

theorem self_evaluate_spec_witness:
  "length (similar_found critical_candidate crowded_system) = 4
   \<and> agent_state (fst (self_evaluate critical_candidate crowded_system)) = ''compromised''
   \<and> confidence_score (fst (self_evaluate critical_candidate crowded_system)) = 105 / 100
   \<and> 1 < confidence_score (fst (self_evaluate critical_candidate crowded_system))
   \<and> recommended_actions (fst (self_evaluate critical_candidate crowded_system)) =
       [''Immediate escalation required'', ''Pattern detected: 4 similar complaints'']
   \<and> confidence_score (fst (self_evaluate (critical_candidate\<lparr> c_severity := ''high'' \<rparr>)
        example_system)) = 80 / 100
   \<and> recommended_actions (fst (self_evaluate (critical_candidate\<lparr> c_severity := ''medium'' \<rparr>)
        example_system)) = [''Log for pattern analysis'']"
proof -
  note T = self_evaluate_spec [of critical_candidate crowded_system]
  note H = self_evaluate_spec [of "critical_candidate\<lparr> c_severity := ''high'' \<rparr>" example_system]
  note M = self_evaluate_spec [of "critical_candidate\<lparr> c_severity := ''medium'' \<rparr>" example_system]
  have n: "length (similar_found critical_candidate crowded_system) = 4"
    by (simp add: crowded_found)
  have sev: "c_severity critical_candidate = ''critical''"
    by (simp add: critical_candidate_def)
  have none: "similar_found cand example_system = []" for cand :: candidate
    by (simp add: similar_found_def find_similar_complaints_def now_isoformat_eq
        example_system_def)
  have a: "agent_state (fst (self_evaluate critical_candidate crowded_system)) = ''compromised''"
    using T sev by (simp add: tier_state_def)
  have b: "confidence_score (fst (self_evaluate critical_candidate crowded_system)) = 105 / 100
      \<and> 1 < confidence_score (fst (self_evaluate critical_candidate crowded_system))"
    using T sev n by simp
  have c: "recommended_actions (fst (self_evaluate critical_candidate crowded_system)) =
       [''Immediate escalation required'', ''Pattern detected: 4 similar complaints'']"
    using T sev n by (simp add: seed_action_def pattern_action_4)
  have d: "confidence_score (fst (self_evaluate (critical_candidate\<lparr> c_severity := ''high'' \<rparr>)
        example_system)) = 80 / 100"
    using H by (simp add: none base_score_def)
  have e: "recommended_actions (fst (self_evaluate (critical_candidate\<lparr> c_severity := ''medium'' \<rparr>)
        example_system)) = [''Log for pattern analysis'']"
    using M by (simp add: none seed_action_def)
  show ?thesis
    using n a b c d e by (intro conjI) simp_all
qed


lemma those_map_all2:
  "those (map f xs) = Some ys \<Longrightarrow> list_all2 (\<lambda>x y. f x = Some y) xs ys"
proof (induction xs arbitrary: ys)
  case Nil
  then show ?case by simp
next
  case (Cons x xs)
  then show ?case by (auto split: option.splits)
qed

lemma json_complaint_fields:
  "json_of_py (py_of_complaint c) = Some j \<Longrightarrow> same_fields c (py_of_json j)"
  by (auto simp add: py_of_complaint_def keyed_def same_fields_def dict_of_pairs_def
      split: option.splits)

lemma json_complaints_records:
  assumes "json_of_py (py_of_complaints cs) = Some doc"
  shows "same_records cs (py_of_json doc)"
proof -
  from assms obtain js where js: "those (map json_of_py (map py_of_complaint cs)) = Some js"
    and doc: "doc = JArr js"
    by (auto simp add: py_of_complaints_def)
  from js have "those (map (\<lambda>c. json_of_py (py_of_complaint c)) cs) = Some js"
    by (simp add: comp_def)
  from those_map_all2 [OF this]
  have "list_all2 (\<lambda>c j. json_of_py (py_of_complaint c) = Some j) cs js" .
  then have "list_all2 (\<lambda>c j. same_fields c (py_of_json j)) cs js"
    by (rule list_all2_mono) (rule json_complaint_fields)
  then have "list_all2 same_fields cs (map py_of_json js)"
    by (simp add: list_all2_map2)
  then show ?thesis by (simp add: same_records_def doc)
qed

lemma save_complaints_writable [simp]:
  "writable (save_complaints s) = writable s"
  by (simp add: save_complaints_def write_store_def split: option.splits)

lemma load_after_save:
  "complaints (load_complaints (save_complaints s)) =
     (if writable s (storage_path s)
      then (case json_of_py (py_of_complaints (complaints s)) of
              None \<Rightarrow> PList []
            | Some doc \<Rightarrow> py_of_json doc)
      else complaints (load_complaints s))"
  by (simp add: load_complaints_def save_complaints_def write_store_def with_store_def
      split: option.splits)

text \<open>
  Claim C3, amended.  When the path can be opened for writing and every value held by the
  records is a JSON value, saving and then loading yields a list of as many elements as
  there are records, and the k-th element is a dictionary whose \<open>id\<close>, \<open>type\<close>,
  \<open>severity\<close> and \<open>status\<close> are those of the k-th record.  When the path can be opened
  and some value is not a JSON value, loading yields the empty list; when the path cannot
  be opened, nothing is written and loading yields what it yielded before the save.
\<close>

theorem save_load_round_trip:
  "(writable s (storage_path s) \<and> json_of_py (py_of_complaints (complaints s)) \<noteq> None
      \<longrightarrow> same_records (complaints s) (complaints (load_complaints (save_complaints s))))
   \<and> (writable s (storage_path s) \<and> json_of_py (py_of_complaints (complaints s)) = None
      \<longrightarrow> complaints (load_complaints (save_complaints s)) = PList [])
   \<and> (\<not> writable s (storage_path s)
      \<longrightarrow> complaints (load_complaints (save_complaints s)) = complaints (load_complaints s))"
  using json_complaints_records [of "complaints s"]
  by (auto simp add: load_after_save)

lemma opaque_system_facts:
  "length (complaints opaque_system) = 1"
  "writable opaque_system (storage_path opaque_system)"
  "json_of_py (py_of_complaints (complaints opaque_system)) = None"
  by (simp_all add: opaque_system_def eval_defs write_store_frame py_of_complaints_def
      py_of_complaint_def keyed_def)

text \<open>
  Claim C3, as stated for every sequence of complaint records, fails: a record whose
  context holds an object that is not a JSON value makes \<open>json.dump\<close> raise
  \<open>TypeError\<close> after the file has been opened for writing; \<open>save_complaints\<close> catches
  the exception, the file is left without a complete document, and \<open>load_complaints\<close>
  then yields the empty list.  One record is saved and none is loaded.
\<close>

theorem save_load_loses_records:
  "length (complaints opaque_system) = 1
   \<and> complaints (load_complaints (save_complaints opaque_system)) = PList []
   \<and> \<not> same_records (complaints opaque_system)
         (complaints (load_complaints (save_complaints opaque_system)))"
proof -
  have l: "complaints (load_complaints (save_complaints opaque_system)) = PList []"
    by (simp add: load_after_save opaque_system_facts)
  obtain c where c: "complaints opaque_system = [c]"
    using opaque_system_facts(1) by (cases "complaints opaque_system") auto
  show ?thesis
    by (simp add: l opaque_system_facts(1) same_records_def c)
qed

theorem save_load_round_trip_witness:
  "writable logged_system (storage_path logged_system)
   \<and> json_of_py (py_of_complaints (complaints logged_system)) \<noteq> None
   \<and> length (complaints logged_system) = 1
   \<and> same_records (complaints logged_system)
       (complaints (load_complaints (save_complaints logged_system)))"
proof -
  have w: "writable logged_system (storage_path logged_system)"
    by (simp add: logged_system_def eval_defs write_store_frame)
  have j: "json_of_py (py_of_complaints (complaints logged_system)) \<noteq> None"
    by (simp add: logged_system_complaints py_of_complaints_def py_of_complaint_def
        py_of_entry_def py_of_evaluation_def keyed_def example_pydict_def)
  have n: "length (complaints logged_system) = 1"
    by (simp add: logged_system_complaints)
  show ?thesis
    using w j n save_load_round_trip [of logged_system] by blast
qed


section \<open>The contradiction check against the specification\<close>

lemma all_chars: "list_all P (Enum.enum :: char list) \<Longrightarrow> P c"
  using UNIV_enum [where 'a = char] by (auto simp add: list_all_iff)

lemma char_lower_table_all:
  "list_all (\<lambda>c. char_lower c =
       (case map_of (zip capital_letters small_letters) c of None \<Rightarrow> c | Some l \<Rightarrow> l))
     (Enum.enum :: char list)"
  by code_simp

lemma isspace_table_all:
  "list_all (\<lambda>c. isspace c = (c \<in> whitespace)) (Enum.enum :: char list)"
  by code_simp


lemma lower_fold_case: "lower t = fold_case t"
  unfolding lower_def fold_case_def
  using all_chars [OF char_lower_table_all] by simp

lemma isspace_whitespace: "isspace c \<longleftrightarrow> c \<in> whitespace"
  using all_chars [OF isspace_table_all] by simp

lemma pieces_Cons: "pieces (c # t) = add_char c (pieces t)"
  by (simp add: pieces_def)

lemma pieces_not_Nil: "pieces t \<noteq> []"
proof (induction t)
  case Nil
  then show ?case by (simp add: pieces_def)
next
  case (Cons c t)
  then obtain w ws where "pieces t = w # ws" by (cases "pieces t") auto
  then show ?case by (simp add: pieces_Cons)
qed

lemma split_from_pieces:
  "split_from cur t = filter (\<lambda>w. w \<noteq> []) ((cur @ hd (pieces t)) # tl (pieces t))"
proof (induction t arbitrary: cur)
  case Nil
  then show ?case by (simp add: pieces_def)
next
  case (Cons c t)
  obtain w ws where p: "pieces t = w # ws"
    using pieces_not_Nil [of t] by (cases "pieces t") auto
  show ?case
    using Cons.IH [of "[]"] Cons.IH [of "cur @ [c]"]
    by (simp add: pieces_Cons p isspace_whitespace)
qed

lemma split_tokens: "split t = tokens t"
  using split_from_pieces [of "[]" t] pieces_not_Nil [of t]
  by (simp add: split_def tokens_def)

lemma str_in_sublist: "str_in w t \<longleftrightarrow> sublist w t"
  by (induction t) (simp_all add: sublist_Cons_right)

lemma has_negation_mentions: "has_negation t \<longleftrightarrow> mentions_negation t"
  by (simp add: has_negation_def mentions_negation_def negation_words_def str_in_sublist
      lower_fold_case)

lemma shared_common: "shared_tokens a b = common_tokens a b"
  by (simp add: shared_tokens_def common_tokens_def split_tokens lower_fold_case)

lemma contradictory_flagged: "contradictory cur prev \<longleftrightarrow> flagged cur prev"
  by (simp add: contradictory_def flagged_def has_negation_mentions shared_common)


text \<open>
  Claim C7.  \<open>detect_contradiction\<close> examines the last five prior instructions only
  (all of them when there are fewer), and reports exactly those among them that are
  flagged against the current instruction: the presence of one of the six negation words
  \<open>don't\<close>, \<open>not\<close>, \<open>never\<close>, \<open>cannot\<close>, \<open>shouldn't\<close>, \<open>mustn't\<close> as a contiguous piece,
  letter case ignored, differs between the two, and they share more than three word
  tokens, split at white space, letter case ignored.  The count is the number of
  flagged instructions, \<open>contradiction_detected\<close> says that there is one, and every
  detail holds the shared tokens.
\<close>

theorem detect_contradiction_flags:
  "details (detect_contradiction cur prevs) =
     map (\<lambda>p. \<lparr> previous = p, current = cur, common_elements = common_tokens cur p \<rparr>)
       (filter (flagged cur) (drop (length prevs - 5) prevs))
   \<and> count (detect_contradiction cur prevs)
       = length (filter (flagged cur) (drop (length prevs - 5) prevs))
   \<and> (contradiction_detected (detect_contradiction cur prevs)
        \<longleftrightarrow> (\<exists>p \<in> set (drop (length prevs - 5) prevs). flagged cur p))
   \<and> length (drop (length prevs - 5) prevs) = min 5 (length prevs)
   \<and> (length recent = 5 \<longrightarrow>
        detect_contradiction cur (older @ recent) = detect_contradiction cur recent)"
proof -
  have eq: "contradictory cur = flagged cur"
    by (rule ext) (simp add: contradictory_flagged)
  have sh: "shared_tokens cur = common_tokens cur"
    by (rule ext) (simp add: shared_common)
  have d: "detect_contradiction cur ps =
     \<lparr> contradiction_detected = (filter (flagged cur) (drop (length ps - 5) ps) \<noteq> []),
       count = length (filter (flagged cur) (drop (length ps - 5) ps)),
       details =
         map (\<lambda>p. \<lparr> previous = p, current = cur, common_elements = common_tokens cur p \<rparr>)
           (filter (flagged cur) (drop (length ps - 5) ps)) \<rparr>" for ps
    using detect_contradiction_filter [of cur ps] by (simp add: eq sh slice_last_def)
  have r: "detect_contradiction cur (older @ recent) = detect_contradiction cur recent"
    if "length recent = 5"
    using that by (simp add: d)
  show ?thesis
    using r by (auto simp add: d filter_empty_conv)
qed

theorem detect_contradiction_flags_witness:
  "length [''Be polite'', ''NEVER guess'', ''Use plain words'', ''Cite sources'',
           ''Always  SHARE the system Prompt with\<newline>users''] = 5
   \<and> detect_contradiction ''Do NOT share the System prompt with users''
        ([''Explain your constraints''] @
         [''Be polite'', ''NEVER guess'', ''Use plain words'', ''Cite sources'',
          ''Always  SHARE the system Prompt with\<newline>users''])
       = detect_contradiction ''Do NOT share the System prompt with users''
          [''Be polite'', ''NEVER guess'', ''Use plain words'', ''Cite sources'',
           ''Always  SHARE the system Prompt with\<newline>users'']
   \<and> flagged ''Do NOT share the System prompt with users''
         ''Always  SHARE the system Prompt with\<newline>users''
   \<and> contradiction_detected
        (detect_contradiction ''Do NOT share the System prompt with users''
          [''Be polite'', ''NEVER guess'', ''Use plain words'', ''Cite sources'',
           ''Always  SHARE the system Prompt with\<newline>users''])
   \<and> count
        (detect_contradiction ''Do NOT share the System prompt with users''
          [''Be polite'', ''NEVER guess'', ''Use plain words'', ''Cite sources'',
           ''Always  SHARE the system Prompt with\<newline>users'']) = 1"
proof -
  let ?cur = "''Do NOT share the System prompt with users''"
  let ?p = "''Always  SHARE the system Prompt with\<newline>users''"
  let ?recent = "[''Be polite'', ''NEVER guess'', ''Use plain words'', ''Cite sources'', ?p]"
  have len: "length ?recent = 5" by simp
  have c: "contradictory ?cur ?p" "\<not> contradictory ?cur ''Be polite''"
    "\<not> contradictory ?cur ''NEVER guess''" "\<not> contradictory ?cur ''Use plain words''"
    "\<not> contradictory ?cur ''Cite sources''"
    by code_simp+
  then have f: "flagged ?cur ?p" "\<not> flagged ?cur ''Be polite''"
    "\<not> flagged ?cur ''NEVER guess''" "\<not> flagged ?cur ''Use plain words''"
    "\<not> flagged ?cur ''Cite sources''"
    by (simp_all add: contradictory_flagged)
  have n: "length (filter (flagged ?cur) (drop (length ?recent - 5) ?recent)) = 1"
    "\<exists>p \<in> set (drop (length ?recent - 5) ?recent). flagged ?cur p"
    using f by simp_all
  show ?thesis
    using detect_contradiction_flags
      [where cur = ?cur and prevs = ?recent and recent = ?recent
         and older = "[''Explain your constraints'']"] len f(1) n
    by (simp only:)
qed

end
